theory Spec2Isabelle
  imports Main "HOL-Library.Word" "HOL-Library.Sublist"
begin

unbundle bit_operations_syntax

section \<open>The \<open>gh project link\<close> command (pkg/cmd/project/link/link.go)\<close>

text \<open>
  The command is glue around collaborators that live outside the file: the project query
  client (\<open>queries.Client\<close>), the REST/GraphQL client (\<open>api.Client\<close>), the exporter and
  the I/O streams. An object is modelled as the record of the methods the file calls on
  it, each method as the function from its arguments to its result. A Go result
  \<open>(*T, error)\<close> is a sum \<open>error + T\<close>, a Go result \<open>error\<close> is an \<open>error option\<close> with
  \<open>None\<close> for \<open>nil\<close>. What a run does to the outside is kept in an explicit \<open>world\<close>:
  the network operations it performed, in order, and the bytes it wrote to standard
  output.
\<close>

subsection \<open>Errors\<close>

text \<open>
  Go's \<open>error\<close> is one type. \<open>FlagError\<close> is what \<open>cmdutil.FlagErrorf\<close> builds (the error
  kind for which the tool prints the usage text), \<open>Errorf\<close> is what \<open>fmt.Errorf\<close> builds,
  \<open>OtherError\<close> stands for every other error value a collaborator may return.
  Collaborators may return any of the three.
\<close>

datatype error = FlagError string | Errorf string | OtherError string

subsection \<open>\<open>strconv.ParseInt\<close> of the Go standard library\<close>

text \<open>
  The command calls \<open>strconv.ParseInt(args[0], 10, 32)\<close>. The library function is
  modelled for a base from 2 to 36 and a bit size from 1 to 64 (its branches for base 0,
  with prefixes and underscores, and for an invalid base or bit size are not reachable
  from this call). Unsigned 64-bit arithmetic is on \<open>nat\<close> with the wrap-around written
  out. As in Go, a result is the pair of the value and the error.
\<close>

datatype NumError = ErrSyntax | ErrRange

definition lower :: "nat \<Rightarrow> nat" where
  "lower c = c OR 32"

definition digit :: "char \<Rightarrow> nat option" where
  "digit c =
     (let b = (of_char c :: nat) in
      if 48 \<le> b \<and> b \<le> 57 then Some (b - 48)
      else if 97 \<le> lower b \<and> lower b \<le> 122 then Some (lower b - 97 + 10)
      else None)"

definition maxUint64 :: nat where
  "maxUint64 = 2 ^ 64 - 1"

fun ParseUint_loop :: "nat \<Rightarrow> nat \<Rightarrow> nat \<Rightarrow> string \<Rightarrow> nat \<times> NumError option" where
  "ParseUint_loop base maxVal n [] = (n, None)"
| "ParseUint_loop base maxVal n (c # cs) =
     (case digit c of
        None \<Rightarrow> (0, Some ErrSyntax)
      | Some d \<Rightarrow>
          if d \<ge> base then (0, Some ErrSyntax)
          else if n \<ge> maxUint64 div base + 1 then (maxVal, Some ErrRange)
          else
            let n' = (n * base) mod 2 ^ 64;
                n1 = (n' + d) mod 2 ^ 64
            in if n1 < n' \<or> n1 > maxVal then (maxVal, Some ErrRange)
               else ParseUint_loop base maxVal n1 cs)"

definition ParseUint :: "string \<Rightarrow> nat \<Rightarrow> nat \<Rightarrow> nat \<times> NumError option" where
  "ParseUint s base bitSize =
     (if s = [] then (0, Some ErrSyntax)
      else ParseUint_loop base (2 ^ bitSize - 1) 0 s)"

definition ParseInt :: "string \<Rightarrow> nat \<Rightarrow> nat \<Rightarrow> int \<times> NumError option" where
  "ParseInt s0 base bitSize =
     (case s0 of
        [] \<Rightarrow> (0, Some ErrSyntax)
      | c # cs \<Rightarrow>
          let neg = (c = CHR ''-'');
              s = (if c = CHR ''+'' \<or> c = CHR ''-'' then cs else s0);
              (un, err) = ParseUint s base bitSize;
              cutoff = (2 :: nat) ^ (bitSize - 1)
          in if err \<noteq> None \<and> err \<noteq> Some ErrRange then (0, err)
             else if \<not> neg \<and> un \<ge> cutoff then (int cutoff - 1, Some ErrRange)
             else if neg \<and> un > cutoff then (- int cutoff, Some ErrRange)
             else (if neg then - int un else int un, None))"

subsection \<open>Data of the command\<close>

type_synonym int32 = "32 word"

text \<open>The collaborators' structs, with the fields this file reads.\<close>

record Owner =
  Login :: string

record Project =
  Project_ID :: string

record api_Repository =
  api_Repository_ID :: string

record OrgTeam =
  OrgTeam_ID :: string

record Repository =
  Repository_URL :: string

record Team =
  Team_URL :: string

text \<open>
  \<open>githubv4.LinkProjectV2ToRepositoryInput\<close> and \<open>githubv4.LinkProjectV2ToTeamInput\<close>:
  two required identifiers and the optional \<open>ClientMutationID\<close>, a nil pointer unless set.
  The variables of a mutation are a Go map from names to such values.
\<close>

datatype input =
    LinkProjectV2ToRepositoryInput (ProjectID: string) (RepositoryID: string)
      (ClientMutationID: "string option")
  | LinkProjectV2ToTeamInput (ProjectID: string) (TeamID: string)
      (ClientMutationID: "string option")

type_synonym variables = "string \<rightharpoonup> input"

record linkProjectToRepoMutation =
  LinkProjectV2ToRepository_Repository :: Repository

record linkProjectToTeamMutation =
  LinkProjectV2ToTeam_Team :: Team

text \<open>What is handed to \<open>Exporter.Write\<close> as \<open>data interface{}\<close>.\<close>

datatype export_data = RepositoryData Repository | TeamData Team

text \<open>
  \<open>iostreams.IOStreams\<close>: the two terminal tests, and whether a write of the given bytes
  to \<open>Out\<close> succeeds (the bytes of a failed write are not modelled).
\<close>

record IOStreams =
  CanPrompt :: bool
  IsStdoutTTY :: bool
  Out_Write :: "string \<Rightarrow> error option"

text \<open>
  \<open>cmdutil.Exporter\<close>: \<open>Write\<close> gives the bytes it writes to \<open>io.Out\<close> and its error.
\<close>

record Exporter =
  Write :: "IOStreams \<Rightarrow> export_data \<Rightarrow> string \<times> error option"

record queries_Client =
  NewOwner :: "bool \<Rightarrow> string \<Rightarrow> error + Owner"
  NewProject :: "bool \<Rightarrow> Owner \<Rightarrow> int32 \<Rightarrow> bool \<Rightarrow> error + Project"
  Mutate_repo :: "string \<Rightarrow> linkProjectToRepoMutation \<Rightarrow> variables
                    \<Rightarrow> error option \<times> linkProjectToRepoMutation"
  Mutate_team :: "string \<Rightarrow> linkProjectToTeamMutation \<Rightarrow> variables
                    \<Rightarrow> error option \<times> linkProjectToTeamMutation"

text \<open>
  \<open>Mutate\<close> takes the query as \<open>interface{}\<close> and fills it in; the file calls it at two
  query types, hence the two fields. \<open>api.Client\<close> is the handle of the two lookups
  \<open>api.GitHubRepo\<close> and \<open>api.OrganizationTeam\<close>; a repository reference
  (\<open>ghrepo.Interface\<close>) is the pair of owner and name.
\<close>

type_synonym ghrepo = "string \<times> string"

definition ghrepo_New :: "string \<Rightarrow> string \<Rightarrow> ghrepo" where
  "ghrepo_New own name = (own, name)"

record api_Client =
  GitHubRepo :: "ghrepo \<Rightarrow> error + api_Repository"
  OrganizationTeam :: "ghrepo \<Rightarrow> string \<Rightarrow> error + OrgTeam"

record linkOpts =
  number :: int32
  owner :: string
  repo :: string
  team :: string
  projectID :: string
  repoID :: string
  teamID :: string
  format :: string
  exporter :: "Exporter option"

text \<open>
  \<open>httpClient\<close> is a function without arguments: the model holds its result, with
  \<open>api.NewClientFromHTTP\<close> (which cannot fail) already applied.
\<close>

record linkConfig =
  httpClient :: "error + api_Client"
  client :: queries_Client
  opts :: linkOpts
  io :: IOStreams

record Factory =
  HttpClient :: "error + api_Client"
  IOStreams :: IOStreams

subsection \<open>The world of a run\<close>

text \<open>
  The five operations that go to the network, each with the arguments of the call. A
  function of the file that makes such a call records it with \<open>perform\<close> before it looks
  at the answer; bytes that reach \<open>io.Out\<close> are appended with \<open>emit\<close>.
\<close>

datatype call =
    NewOwner_call bool string
  | NewProject_call bool Owner int32 bool
  | GitHubRepo_call ghrepo
  | OrganizationTeam_call ghrepo string
  | Mutate_call string variables

record world =
  network :: "call list"
  stdout :: string

definition perform :: "call \<Rightarrow> world \<Rightarrow> world" where
  "perform c w = w\<lparr>network := network w @ [c]\<rparr>"

definition emit :: "string \<Rightarrow> world \<Rightarrow> world" where
  "emit s w = w\<lparr>stdout := stdout w @ s\<rparr>"

text \<open>
  The call \<open>exporter.Write(config.io, data)\<close>: its error is returned, what it writes
  reaches standard output.
\<close>

definition Exporter_Write ::
  "Exporter \<Rightarrow> IOStreams \<Rightarrow> export_data \<Rightarrow> world \<Rightarrow> error option \<times> world" where
  "Exporter_Write ex ios d w = (snd (Write ex ios d), emit (fst (Write ex ios d)) w)"

subsection \<open>The functions of link.go\<close>

definition printResults :: "linkConfig \<Rightarrow> string \<Rightarrow> world \<Rightarrow> error option \<times> world" where
  "printResults config url w =
     (if \<not> IsStdoutTTY (io config) then (None, w)
      else
        (case Out_Write (io config) (url @ [CHR 0x0A]) of
           None \<Rightarrow> (None, emit (url @ [CHR 0x0A]) w)
         | Some err \<Rightarrow> (Some err, w)))"

definition linkRepoArgs :: "linkConfig \<Rightarrow> linkProjectToRepoMutation \<times> variables" where
  "linkRepoArgs config =
     (\<lparr>LinkProjectV2ToRepository_Repository = \<lparr>Repository_URL = ''''\<rparr>\<rparr>,
      [''input'' \<mapsto>
        LinkProjectV2ToRepositoryInput (projectID (opts config)) (repoID (opts config)) None])"

definition linkTeamArgs :: "linkConfig \<Rightarrow> linkProjectToTeamMutation \<times> variables" where
  "linkTeamArgs config =
     (\<lparr>LinkProjectV2ToTeam_Team = \<lparr>Team_URL = ''''\<rparr>\<rparr>,
      [''input'' \<mapsto>
        LinkProjectV2ToTeamInput (projectID (opts config)) (teamID (opts config)) None])"

definition linkRepo ::
  "api_Client \<Rightarrow> Owner \<Rightarrow> linkConfig \<Rightarrow> world \<Rightarrow> error option \<times> world" where
  "linkRepo c own config w =
     (let ref = ghrepo_New (Login own) (repo (opts config));
          w1 = perform (GitHubRepo_call ref) w
      in case GitHubRepo c ref of
           Inl err \<Rightarrow> (Some err, w1)
         | Inr r \<Rightarrow>
             let config1 = config\<lparr>opts := (opts config)\<lparr>repoID := api_Repository_ID r\<rparr>\<rparr>;
                 (query, variable) = linkRepoArgs config1;
                 w2 = perform (Mutate_call ''LinkProjectV2ToRepository'' variable) w1
             in case Mutate_repo (client config1) ''LinkProjectV2ToRepository'' query variable of
                  (Some err, _) \<Rightarrow> (Some err, w2)
                | (None, query1) \<Rightarrow>
                    (case exporter (opts config1) of
                       Some ex \<Rightarrow>
                         Exporter_Write ex (io config1)
                           (RepositoryData (LinkProjectV2ToRepository_Repository query1)) w2
                     | None \<Rightarrow>
                         printResults config1
                           (Repository_URL (LinkProjectV2ToRepository_Repository query1)) w2))"

definition linkTeam ::
  "api_Client \<Rightarrow> Owner \<Rightarrow> linkConfig \<Rightarrow> world \<Rightarrow> error option \<times> world" where
  "linkTeam c own config w =
     (let ref = ghrepo_New (Login own) '''';
          w1 = perform (OrganizationTeam_call ref (team (opts config))) w
      in case OrganizationTeam c ref (team (opts config)) of
           Inl err \<Rightarrow> (Some err, w1)
         | Inr t \<Rightarrow>
             let config1 = config\<lparr>opts := (opts config)\<lparr>teamID := OrgTeam_ID t\<rparr>\<rparr>;
                 (query, variable) = linkTeamArgs config1;
                 w2 = perform (Mutate_call ''LinkProjectV2ToTeam'' variable) w1
             in case Mutate_team (client config1) ''LinkProjectV2ToTeam'' query variable of
                  (Some err, _) \<Rightarrow> (Some err, w2)
                | (None, query1) \<Rightarrow>
                    (case exporter (opts config1) of
                       Some ex \<Rightarrow>
                         Exporter_Write ex (io config1)
                           (TeamData (LinkProjectV2ToTeam_Team query1)) w2
                     | None \<Rightarrow>
                         printResults config1
                           (Team_URL (LinkProjectV2ToTeam_Team query1)) w2))"

definition runLink :: "linkConfig \<Rightarrow> world \<Rightarrow> error option \<times> world" where
  "runLink config w =
     (let canPrompt = CanPrompt (io config);
          w1 = perform (NewOwner_call canPrompt (owner (opts config))) w
      in case NewOwner (client config) canPrompt (owner (opts config)) of
           Inl err \<Rightarrow> (Some err, w1)
         | Inr own \<Rightarrow>
             let w2 = perform (NewProject_call canPrompt own (number (opts config)) False) w1
             in case NewProject (client config) canPrompt own (number (opts config)) False of
                  Inl err \<Rightarrow> (Some err, w2)
                | Inr project \<Rightarrow>
                    let config1 = config\<lparr>opts := (opts config)\<lparr>projectID := Project_ID project\<rparr>\<rparr>
                    in case httpClient config1 of
                         Inl err \<Rightarrow> (Some err, w2)
                       | Inr c \<Rightarrow>
                           if repo (opts config1) \<noteq> '''' then linkRepo c own config1 w2
                           else if team (opts config1) \<noteq> '''' then linkTeam c own config1 w2
                           else (None, w2))"

text \<open>
  \<open>NewCmdLink\<close> starts from \<open>opts := linkOpts{}\<close> and binds the flags \<open>--owner\<close>,
  \<open>--repo\<close>, \<open>--team\<close> (default: the empty string) and the format flags (which set the
  exporter, nil by default) to its fields; the other fields keep their zero value until
  \<open>RunE\<close> runs.
\<close>

record flags =
  flag_owner :: string
  flag_repo :: string
  flag_team :: string
  flag_exporter :: "Exporter option"

definition bound_opts :: "flags \<Rightarrow> linkOpts" where
  "bound_opts fl =
     \<lparr>number = 0, owner = flag_owner fl, repo = flag_repo fl, team = flag_team fl,
      projectID = '''', repoID = '''', teamID = '''', format = '''',
      exporter = flag_exporter fl\<rparr>"

text \<open>
  The body of \<open>RunE\<close> up to the test hook (lines 62 to 86): the configuration it builds,
  or the error it returns early. \<open>client_New\<close> is \<open>client.New\<close> of
  pkg/cmd/project/shared/client, taken as a parameter.
\<close>

definition RunE_config ::
  "(Factory \<Rightarrow> error + queries_Client) \<Rightarrow> Factory \<Rightarrow> linkOpts \<Rightarrow> string list
     \<Rightarrow> error + linkConfig" where
  "RunE_config client_New f opts0 args =
     (case client_New f of
        Inl err \<Rightarrow> Inl err
      | Inr cl \<Rightarrow>
          (case (if length args = 1
                 then (let (num, err) = ParseInt (args ! 0) 10 32
                       in if err \<noteq> None
                          then Inl (FlagError (''invalid number: '' @ args ! 0))
                          else Inr (opts0\<lparr>number := word_of_int num\<rparr>))
                 else Inr opts0) of
             Inl err \<Rightarrow> Inl err
           | Inr opts1 \<Rightarrow>
               let config = \<lparr>httpClient = HttpClient f, client = cl, opts = opts1,
                             io = IOStreams f\<rparr>
               in if repo (opts config) \<noteq> '''' \<and> team (opts config) \<noteq> ''''
                  then Inl (Errorf ''specify only one of `--repo` or `--team`'')
                  else if repo (opts config) = '''' \<and> team (opts config) = ''''
                  then Inl (Errorf ''specify either `--repo` or `--team`'')
                  else Inr config))"

type_synonym run = "linkConfig \<Rightarrow> world \<Rightarrow> error option \<times> world"

definition RunE ::
  "(Factory \<Rightarrow> error + queries_Client) \<Rightarrow> Factory \<Rightarrow> run option \<Rightarrow> linkOpts \<Rightarrow> string list
     \<Rightarrow> world \<Rightarrow> error option \<times> world" where
  "RunE client_New f runF opts0 args w =
     (case RunE_config client_New f opts0 args of
        Inl err \<Rightarrow> (Some err, w)
      | Inr config \<Rightarrow>
          (case runF of
             Some g \<Rightarrow> g config w
           | None \<Rightarrow> runLink config w))"

definition NewCmdLink ::
  "(Factory \<Rightarrow> error + queries_Client) \<Rightarrow> Factory \<Rightarrow> run option \<Rightarrow> flags \<Rightarrow> string list
     \<Rightarrow> world \<Rightarrow> error option \<times> world" where
  "NewCmdLink client_New f runF fl args w = RunE client_New f runF (bound_opts fl) args w"

section \<open>Notions used to state the properties\<close>

subsection \<open>Decimal numerals\<close>

text \<open>
  What the properties call a numeric argument: an optional sign followed by at least one
  decimal digit, and the integer it denotes. These are not taken from the code; the
  theorems relate them to \<open>ParseInt\<close>.
\<close>

definition is_digit :: "char \<Rightarrow> bool" where
  "is_digit c \<longleftrightarrow> 48 \<le> (of_char c :: nat) \<and> (of_char c :: nat) \<le> 57"

fun digits_value :: "nat \<Rightarrow> string \<Rightarrow> nat" where
  "digits_value n [] = n"
| "digits_value n (c # cs) = digits_value (n * 10 + (of_char c - 48)) cs"

definition decimal_numeral :: "string \<Rightarrow> bool" where
  "decimal_numeral s =
     (case s of
        [] \<Rightarrow> False
      | c # cs \<Rightarrow>
          if c = CHR ''+'' \<or> c = CHR ''-'' then cs \<noteq> [] \<and> list_all is_digit cs
          else list_all is_digit s)"

definition numeral_value :: "string \<Rightarrow> int" where
  "numeral_value s =
     (case s of
        [] \<Rightarrow> 0
      | c # cs \<Rightarrow>
          if c = CHR ''-'' then - int (digits_value 0 cs)
          else if c = CHR ''+'' then int (digits_value 0 cs)
          else int (digits_value 0 s))"

subsection \<open>The answers of the collaborators to the calls of a run\<close>

text \<open>
  The lookups \<open>runLink\<close>, \<open>linkRepo\<close> and \<open>linkTeam\<close> make, at the arguments they
  make them with; a run resolves a repository (a team) when all of them succeed.
\<close>

definition owner_lookup :: "linkConfig \<Rightarrow> error + Owner" where
  "owner_lookup config = NewOwner (client config) (CanPrompt (io config)) (owner (opts config))"

definition project_lookup :: "linkConfig \<Rightarrow> Owner \<Rightarrow> error + Project" where
  "project_lookup config own =
     NewProject (client config) (CanPrompt (io config)) own (number (opts config)) False"

definition repo_lookup :: "linkConfig \<Rightarrow> api_Client \<Rightarrow> Owner \<Rightarrow> error + api_Repository" where
  "repo_lookup config c own = GitHubRepo c (ghrepo_New (Login own) (repo (opts config)))"

definition team_lookup :: "linkConfig \<Rightarrow> api_Client \<Rightarrow> Owner \<Rightarrow> error + OrgTeam" where
  "team_lookup config c own =
     OrganizationTeam c (ghrepo_New (Login own) '''') (team (opts config))"

definition resolves_repo ::
  "linkConfig \<Rightarrow> Owner \<Rightarrow> Project \<Rightarrow> api_Client \<Rightarrow> api_Repository \<Rightarrow> bool" where
  "resolves_repo config own project c r \<longleftrightarrow>
     owner_lookup config = Inr own \<and> project_lookup config own = Inr project \<and>
     httpClient config = Inr c \<and> repo (opts config) \<noteq> '''' \<and>
     repo_lookup config c own = Inr r"

definition resolves_team ::
  "linkConfig \<Rightarrow> Owner \<Rightarrow> Project \<Rightarrow> api_Client \<Rightarrow> OrgTeam \<Rightarrow> bool" where
  "resolves_team config own project c t \<longleftrightarrow>
     owner_lookup config = Inr own \<and> project_lookup config own = Inr project \<and>
     httpClient config = Inr c \<and> repo (opts config) = '''' \<and> team (opts config) \<noteq> '''' \<and>
     team_lookup config c own = Inr t"

text \<open>
  What \<open>Mutate\<close> answers to the mutation of such a run, and the network operations of
  the run, in order.
\<close>

definition repo_mutation_outcome ::
  "linkConfig \<Rightarrow> Project \<Rightarrow> api_Repository \<Rightarrow> error option \<times> linkProjectToRepoMutation" where
  "repo_mutation_outcome config project r =
     Mutate_repo (client config) ''LinkProjectV2ToRepository''
       \<lparr>LinkProjectV2ToRepository_Repository = \<lparr>Repository_URL = ''''\<rparr>\<rparr>
       [''input'' \<mapsto>
         LinkProjectV2ToRepositoryInput (Project_ID project) (api_Repository_ID r) None]"

definition team_mutation_outcome ::
  "linkConfig \<Rightarrow> Project \<Rightarrow> OrgTeam \<Rightarrow> error option \<times> linkProjectToTeamMutation" where
  "team_mutation_outcome config project t =
     Mutate_team (client config) ''LinkProjectV2ToTeam''
       \<lparr>LinkProjectV2ToTeam_Team = \<lparr>Team_URL = ''''\<rparr>\<rparr>
       [''input'' \<mapsto> LinkProjectV2ToTeamInput (Project_ID project) (OrgTeam_ID t) None]"

definition repo_calls :: "linkConfig \<Rightarrow> Owner \<Rightarrow> Project \<Rightarrow> api_Repository \<Rightarrow> call list" where
  "repo_calls config own project r =
     [NewOwner_call (CanPrompt (io config)) (owner (opts config)),
      NewProject_call (CanPrompt (io config)) own (number (opts config)) False,
      GitHubRepo_call (ghrepo_New (Login own) (repo (opts config))),
      Mutate_call ''LinkProjectV2ToRepository''
        [''input'' \<mapsto>
          LinkProjectV2ToRepositoryInput (Project_ID project) (api_Repository_ID r) None]]"

definition team_calls :: "linkConfig \<Rightarrow> Owner \<Rightarrow> Project \<Rightarrow> OrgTeam \<Rightarrow> call list" where
  "team_calls config own project t =
     [NewOwner_call (CanPrompt (io config)) (owner (opts config)),
      NewProject_call (CanPrompt (io config)) own (number (opts config)) False,
      OrganizationTeam_call (ghrepo_New (Login own) '''') (team (opts config)),
      Mutate_call ''LinkProjectV2ToTeam''
        [''input'' \<mapsto> LinkProjectV2ToTeamInput (Project_ID project) (OrgTeam_ID t) None]]"

subsection \<open>Steps of a run\<close>

text \<open>
  The kind of each network operation, and the steps a run adds to the log of the world
  it started in.
\<close>

datatype step = OwnerResolution | ProjectResolution | TargetLookup | LinkMutation

fun step_of :: "call \<Rightarrow> step" where
  "step_of (NewOwner_call canPrompt login) = OwnerResolution"
| "step_of (NewProject_call canPrompt own n fs) = ProjectResolution"
| "step_of (GitHubRepo_call ref) = TargetLookup"
| "step_of (OrganizationTeam_call ref slug) = TargetLookup"
| "step_of (Mutate_call name variable) = LinkMutation"

definition steps_between :: "world \<Rightarrow> world \<Rightarrow> step list" where
  "steps_between w w' = map step_of (drop (length (network w)) (network w'))"

fun is_mutation :: "call \<Rightarrow> bool" where
  "is_mutation (Mutate_call name variable) = True"
| "is_mutation c = False"

definition mutations_between :: "world \<Rightarrow> world \<Rightarrow> nat" where
  "mutations_between w w' = length (filter is_mutation (drop (length (network w)) (network w')))"

section \<open>Test doubles\<close>

text \<open>
  Collaborators that answer like the mocks of the command's tests: every lookup and
  mutation succeeds, standard output is a terminal. Variants below fail at one place.
\<close>

definition stub_io :: IOStreams where
  "stub_io = \<lparr>CanPrompt = False, IsStdoutTTY = True, Out_Write = (\<lambda>s. None)\<rparr>"

definition stub_client :: queries_Client where
  "stub_client =
     \<lparr>NewOwner = (\<lambda>canPrompt login. Inr \<lparr>Login = login\<rparr>),
      NewProject = (\<lambda>canPrompt own n fields. Inr \<lparr>Project_ID = ''project-ID''\<rparr>),
      Mutate_repo = (\<lambda>name query variable.
        (None, \<lparr>LinkProjectV2ToRepository_Repository =
                  \<lparr>Repository_URL = ''http://a-url.com''\<rparr>\<rparr>)),
      Mutate_team = (\<lambda>name query variable.
        (None, \<lparr>LinkProjectV2ToTeam_Team = \<lparr>Team_URL = ''http://a-url.com''\<rparr>\<rparr>))\<rparr>"

definition stub_api :: api_Client where
  "stub_api =
     \<lparr>GitHubRepo = (\<lambda>ref. Inr \<lparr>api_Repository_ID = ''repo-ID''\<rparr>),
      OrganizationTeam = (\<lambda>ref slug. Inr \<lparr>OrgTeam_ID = ''team-ID''\<rparr>)\<rparr>"

definition stub_factory :: Factory where
  "stub_factory = \<lparr>HttpClient = Inr stub_api, IOStreams = stub_io\<rparr>"

definition stub_client_New :: "Factory \<Rightarrow> error + queries_Client" where
  "stub_client_New f = Inr stub_client"

definition failing_client_New :: "Factory \<Rightarrow> error + queries_Client" where
  "failing_client_New f = Inl (OtherError ''could not read the configuration'')"

definition no_flags :: flags where
  "no_flags = \<lparr>flag_owner = '''', flag_repo = '''', flag_team = '''', flag_exporter = None\<rparr>"

definition empty_world :: world where
  "empty_world = \<lparr>network = [], stdout = ''''\<rparr>"

definition repo_flags :: flags where
  "repo_flags =
     \<lparr>flag_owner = ''monalisa'', flag_repo = ''my-repo'', flag_team = '''', flag_exporter = None\<rparr>"

definition team_flags :: flags where
  "team_flags =
     \<lparr>flag_owner = ''monalisa-org'', flag_repo = '''', flag_team = ''my-team'', flag_exporter = None\<rparr>"

definition both_flags :: flags where
  "both_flags =
     \<lparr>flag_owner = ''monalisa'', flag_repo = ''my-repo'', flag_team = ''my-team'',
      flag_exporter = None\<rparr>"

definition stub_exporter :: Exporter where
  "stub_exporter =
     \<lparr>Write = (\<lambda>ios d.
        (case d of
           RepositoryData r \<Rightarrow> ''repository url='' @ Repository_URL r
         | TeamData t \<Rightarrow> ''team url='' @ Team_URL t, None))\<rparr>"

definition stub_config :: "flags \<Rightarrow> IOStreams \<Rightarrow> queries_Client \<Rightarrow> linkConfig" where
  "stub_config fl ios cl =
     \<lparr>httpClient = Inr stub_api, client = cl, opts = bound_opts fl, io = ios\<rparr>"

definition stub_project :: Project where
  "stub_project = \<lparr>Project_ID = ''project-ID''\<rparr>"

definition stub_repository :: api_Repository where
  "stub_repository = \<lparr>api_Repository_ID = ''repo-ID''\<rparr>"

definition stub_team :: OrgTeam where
  "stub_team = \<lparr>OrgTeam_ID = ''team-ID''\<rparr>"

definition piped_io :: IOStreams where
  "piped_io = \<lparr>CanPrompt = False, IsStdoutTTY = False, Out_Write = (\<lambda>s. None)\<rparr>"

definition repo_export_flags :: flags where
  "repo_export_flags =
     \<lparr>flag_owner = ''monalisa'', flag_repo = ''my-repo'', flag_team = '''',
      flag_exporter = Some stub_exporter\<rparr>"

definition rejecting_client :: queries_Client where
  "rejecting_client =
     stub_client
       \<lparr>Mutate_repo := (\<lambda>name query variable. (Some (OtherError ''GraphQL: forbidden''), query)),
        Mutate_team := (\<lambda>name query variable. (Some (OtherError ''GraphQL: forbidden''), query))\<rparr>"

definition no_project_client :: queries_Client where
  "no_project_client =
     stub_client
       \<lparr>NewProject := (\<lambda>canPrompt own n fs. Inl (OtherError ''Could not resolve to a ProjectV2''))\<rparr>"

section \<open>Properties\<close>

subsection \<open>The number parser\<close>

lemma digit_lt10: "digit c = Some d \<Longrightarrow> d < 10 \<Longrightarrow> is_digit c \<and> d = of_char c - 48"
  by (auto simp: digit_def is_digit_def Let_def split: if_splits)

lemma digit_is_digit: "is_digit c \<Longrightarrow> digit c = Some (of_char c - 48) \<and> (of_char c - 48 :: nat) < 10"
  by (auto simp: digit_def is_digit_def Let_def)

lemma loop_ok_digits: "snd (ParseUint_loop 10 m n cs) = None \<Longrightarrow> list_all is_digit cs"
proof (induction cs arbitrary: n)
  case Nil
  then show ?case by simp
next
  case (Cons c cs)
  then show ?case
    by (auto simp: Let_def dest: digit_lt10 split: option.splits if_splits)
qed

lemma digits_value_mono: "n \<le> digits_value n cs"
proof (induction cs arbitrary: n)
  case Nil
  then show ?case by simp
next
  case (Cons c cs)
  have "n \<le> n * 10 + (of_char c - 48)" by simp
  also have "\<dots> \<le> digits_value (n * 10 + (of_char c - 48)) cs" by (rule Cons.IH)
  finally show ?case by simp
qed

lemma loop_digits:
  "list_all is_digit cs \<Longrightarrow> n \<le> 4294967295 \<Longrightarrow>
   ParseUint_loop 10 4294967295 n cs =
     (if digits_value n cs \<le> 4294967295 then (digits_value n cs, None)
      else (4294967295, Some ErrRange))"
proof (induction cs arbitrary: n)
  case Nil
  then show ?case by simp
next
  case (Cons c cs)
  let ?d = "of_char c - 48 :: nat"
  from Cons.prems have dc: "digit c = Some ?d" and d10: "?d < 10" and rest: "list_all is_digit cs"
    using digit_is_digit by auto
  have cut: "\<not> n \<ge> maxUint64 div 10 + 1"
    using Cons.prems(2) by (simp add: maxUint64_def)
  have nowrap1: "(n * 10) mod 2 ^ 64 = n * 10"
    using Cons.prems(2) by simp
  have nowrap2: "(n * 10 + ?d) mod 2 ^ 64 = n * 10 + ?d"
    using Cons.prems(2) d10 by simp
  show ?case
  proof (cases "n * 10 + ?d \<le> 4294967295")
    case True
    then show ?thesis
      using dc d10 cut nowrap1 nowrap2 Cons.IH [OF rest True]
      by (simp add: Let_def)
  next
    case False
    moreover have "n * 10 + ?d \<le> digits_value (n * 10 + ?d) cs"
      by (rule digits_value_mono)
    ultimately show ?thesis
      using dc d10 cut nowrap1 nowrap2
      by (simp add: Let_def)
  qed
qed

lemma loop_range_value: "snd (ParseUint_loop b m n cs) = Some ErrRange \<Longrightarrow> fst (ParseUint_loop b m n cs) = m"
  by (induction cs arbitrary: n) (auto simp: Let_def split: option.splits if_splits)

lemma ParseUint_digits:
  "s \<noteq> [] \<Longrightarrow> list_all is_digit s \<Longrightarrow>
   ParseUint s 10 32 =
     (if digits_value 0 s \<le> 4294967295 then (digits_value 0 s, None)
      else (4294967295, Some ErrRange))"
  using loop_digits [of s 0] by (simp add: ParseUint_def)

lemma ParseUint_ok_digits: "snd (ParseUint s 10 32) = None \<Longrightarrow> s \<noteq> [] \<and> list_all is_digit s"
  using loop_ok_digits [of "2 ^ 32 - 1" 0 s] by (auto simp: ParseUint_def split: if_splits)

lemma ParseUint_range_value: "snd (ParseUint s 10 32) = Some ErrRange \<Longrightarrow> fst (ParseUint s 10 32) = 4294967295"
  using loop_range_value [of 10 "2 ^ 32 - 1" 0 s] by (auto simp: ParseUint_def split: if_splits)

lemma ParseInt_numeral:
  assumes "decimal_numeral s"
  shows "ParseInt s 10 32 =
     (if numeral_value s > 2147483647 then (2147483647, Some ErrRange)
      else if numeral_value s < - 2147483648 then (- 2147483648, Some ErrRange)
      else (numeral_value s, None))"
proof (cases s)
  case Nil
  with assms show ?thesis by (simp add: decimal_numeral_def)
next
  case (Cons c cs)
  show ?thesis
  proof (cases "c = CHR ''+'' \<or> c = CHR ''-''")
    case True
    with assms Cons have "cs \<noteq> []" "list_all is_digit cs"
      by (auto simp: decimal_numeral_def)
    from ParseUint_digits [OF this] True Cons show ?thesis
      by (auto simp: ParseInt_def numeral_value_def Let_def)
  next
    case False
    with assms Cons have "s \<noteq> []" "list_all is_digit s"
      by (auto simp: decimal_numeral_def)
    from ParseUint_digits [OF this] False Cons show ?thesis
      by (auto simp: ParseInt_def numeral_value_def Let_def)
  qed
qed

lemma ParseInt_not_numeral:
  assumes "\<not> decimal_numeral s"
  shows "snd (ParseInt s 10 32) \<noteq> None"
proof (cases s)
  case Nil
  then show ?thesis by (simp add: ParseInt_def)
next
  case (Cons c cs)
  define t where "t = (if c = CHR ''+'' \<or> c = CHR ''-'' then cs else s)"
  from assms Cons have "\<not> (t \<noteq> [] \<and> list_all is_digit t)"
    by (auto simp: decimal_numeral_def t_def split: if_splits)
  with ParseUint_ok_digits [of t] have err: "snd (ParseUint t 10 32) \<noteq> None"
    by blast
  obtain un e where pu: "ParseUint t 10 32 = (un, e)"
    by (cases "ParseUint t 10 32")
  with err have e: "e \<noteq> None" by simp
  from pu Cons have pi: "ParseInt s 10 32 =
      (if e \<noteq> None \<and> e \<noteq> Some ErrRange then (0, e)
       else if c \<noteq> CHR ''-'' \<and> un \<ge> 2147483648 then (2147483647, Some ErrRange)
       else if c = CHR ''-'' \<and> un > 2147483648 then (- 2147483648, Some ErrRange)
       else (if c = CHR ''-'' then - int un else int un, None))"
    unfolding t_def by (auto simp: ParseInt_def Let_def split: if_splits)
  show ?thesis
  proof (cases "e = Some ErrRange")
    case True
    with pu ParseUint_range_value [of t] have "un = 4294967295" by simp
    with True show ?thesis
      by (simp add: pi)
  next
    case False
    with e show ?thesis
      by (simp add: pi)
  qed
qed

subsection \<open>Argument validation\<close>

lemma RunE_config_invalid:
  "client_New f = Inr cl \<Longrightarrow> snd (ParseInt a 10 32) \<noteq> None \<Longrightarrow>
   RunE_config client_New f opts0 [a] = Inl (FlagError (''invalid number: '' @ a))"
  by (auto simp: RunE_config_def split: prod.splits)

text \<open>
  \<^bold>\<open>C3,\<close> as the code has it. When the client was constructed and the single positional
  argument is not a decimal numeral, the command returns the \<open>FlagError\<close> whose message is
  \<open>invalid number: \<close> followed by the argument. \<open>RunE\<close> returns before it builds a
  configuration, so whatever \<open>runF\<close> is, neither it nor \<open>runLink\<close> is called: the result
  does not depend on \<open>runF\<close> and the world is unchanged.
\<close>

theorem invalid_number_usage_error:
  "client_New f = Inr cl \<Longrightarrow> \<not> decimal_numeral a \<Longrightarrow>
   RunE_config client_New f (bound_opts fl) [a] = Inl (FlagError (''invalid number: '' @ a)) \<and>
   NewCmdLink client_New f runF fl [a] w = (Some (FlagError (''invalid number: '' @ a)), w)"
  using RunE_config_invalid [OF _ ParseInt_not_numeral, of client_New f cl a "bound_opts fl"]
  by (simp add: NewCmdLink_def RunE_def)

text \<open>C3 on the test doubles, for the argument \<open>abc\<close>.\<close>

theorem invalid_number_usage_error_witness:
  "stub_client_New stub_factory = Inr stub_client \<and> \<not> decimal_numeral ''abc'' \<and>
   NewCmdLink stub_client_New stub_factory None no_flags [''abc''] empty_world =
     (Some (FlagError ''invalid number: abc''), empty_world)"
  using invalid_number_usage_error [of stub_client_New stub_factory stub_client "''abc''" no_flags None empty_world]
  by (simp add: stub_client_New_def decimal_numeral_def is_digit_def)

text \<open>
  C3 without the condition on the client does not hold: \<open>client.New\<close> is called first, and
  when it fails its error is returned, for the non-numeric argument \<open>abc\<close> too.
\<close>

theorem invalid_number_counterexample:
  "\<not> decimal_numeral ''abc'' \<and>
   NewCmdLink failing_client_New stub_factory None no_flags [''abc''] empty_world =
     (Some (OtherError ''could not read the configuration''), empty_world) \<and>
   NewCmdLink failing_client_New stub_factory None no_flags [''abc''] empty_world \<noteq>
     (Some (FlagError ''invalid number: abc''), empty_world)"
  by (simp add: NewCmdLink_def RunE_def RunE_config_def failing_client_New_def
      decimal_numeral_def is_digit_def)

lemma RunE_config_both:
  "client_New f = Inr cl \<Longrightarrow> repo opts0 \<noteq> '''' \<Longrightarrow> team opts0 \<noteq> '''' \<Longrightarrow>
   RunE_config client_New f opts0 args =
     Inl (if length args = 1 \<and> snd (ParseInt (args ! 0) 10 32) \<noteq> None
          then FlagError (''invalid number: '' @ args ! 0)
          else Errorf ''specify only one of `--repo` or `--team`'')"
  by (auto simp: RunE_config_def split: prod.splits)

lemma RunE_config_neither:
  "client_New f = Inr cl \<Longrightarrow> repo opts0 = '''' \<Longrightarrow> team opts0 = '''' \<Longrightarrow>
   RunE_config client_New f opts0 args =
     Inl (if length args = 1 \<and> snd (ParseInt (args ! 0) 10 32) \<noteq> None
          then FlagError (''invalid number: '' @ args ! 0)
          else Errorf ''specify either `--repo` or `--team`'')"
  by (auto simp: RunE_config_def split: prod.splits)

lemma RunE_config_Inr:
  "RunE_config client_New f opts0 args = Inr config \<Longrightarrow>
   (repo opts0 = '''') \<noteq> (team opts0 = '''') \<and> repo (opts config) = repo opts0 \<and>
   team (opts config) = team opts0"
  by (auto simp: RunE_config_def Let_def split: sum.splits prod.splits if_splits)

lemma NewCmdLink_proceeds:
  "RunE_config client_New f (bound_opts fl) args = Inr config \<Longrightarrow>
   NewCmdLink client_New f runF fl args w =
     (case runF of Some g \<Rightarrow> g config w | None \<Rightarrow> runLink config w)"
  by (simp add: NewCmdLink_def RunE_def)

lemma RunE_config_zero:
  "number opts0 = 0 \<Longrightarrow>
   RunE_config client_New f opts0 [''0''] = RunE_config client_New f opts0 []"
proof -
  assume z: "number opts0 = 0"
  have p: "ParseInt ''0'' 10 32 = (0, None)"
    by (simp add: ParseInt_def ParseUint_def digit_def lower_def maxUint64_def Let_def)
  have e: "opts0\<lparr>number := 0\<rparr> = opts0"
    using z by simp
  show ?thesis
    by (simp add: RunE_config_def p Let_def e split: sum.splits)
qed

text \<open>
  \<^bold>\<open>C8,\<close> as the code has it. The number is parsed by \<open>ParseInt\<close> with bit size 32.
  When the client was constructed and the single positional argument is a decimal
  numeral below \<open>-2^31\<close> or above \<open>2^31 - 1\<close>, \<open>ParseInt\<close> reports a range error and the
  command returns the same \<open>FlagError\<close> as for a non-numeric argument,
  \<open>invalid number: \<close> followed by the argument.
\<close>

theorem out_of_range_number_usage_error:
  "client_New f = Inr cl \<Longrightarrow> decimal_numeral a \<Longrightarrow>
   numeral_value a < - 2147483648 \<or> 2147483647 < numeral_value a \<Longrightarrow>
   snd (ParseInt a 10 32) = Some ErrRange \<and>
   NewCmdLink client_New f runF fl [a] w = (Some (FlagError (''invalid number: '' @ a)), w)"
proof -
  assume cl: "client_New f = Inr cl" and num: "decimal_numeral a"
    and out: "numeral_value a < - 2147483648 \<or> 2147483647 < numeral_value a"
  from ParseInt_numeral [OF num] out have r: "snd (ParseInt a 10 32) = Some ErrRange"
    by auto
  then have "snd (ParseInt a 10 32) \<noteq> None" by simp
  with cl r RunE_config_invalid [of client_New f cl a "bound_opts fl"] show ?thesis
    by (simp add: NewCmdLink_def RunE_def)
qed

text \<open>C8 on the test doubles, for \<open>3000000000\<close> and \<open>-3000000000\<close>.\<close>

theorem out_of_range_number_witness:
  "stub_client_New stub_factory = Inr stub_client \<and> decimal_numeral ''3000000000'' \<and>
   2147483647 < numeral_value ''3000000000'' \<and>
   NewCmdLink stub_client_New stub_factory None repo_flags [''3000000000''] empty_world =
     (Some (FlagError ''invalid number: 3000000000''), empty_world) \<and>
   decimal_numeral ''-3000000000'' \<and> numeral_value ''-3000000000'' < - 2147483648 \<and>
   NewCmdLink stub_client_New stub_factory None repo_flags [''-3000000000''] empty_world =
     (Some (FlagError ''invalid number: -3000000000''), empty_world)"
  using out_of_range_number_usage_error [of stub_client_New stub_factory stub_client
      "''3000000000''" None repo_flags empty_world]
    out_of_range_number_usage_error [of stub_client_New stub_factory stub_client
      "''-3000000000''" None repo_flags empty_world]
  by (simp add: stub_client_New_def decimal_numeral_def numeral_value_def is_digit_def)

text \<open>
  C8 without the condition on the client does not hold: when \<open>client.New\<close> fails, the
  command returns that error for the argument \<open>3000000000\<close>, not \<open>invalid number\<close>.
\<close>

theorem out_of_range_number_counterexample:
  "decimal_numeral ''3000000000'' \<and> 2147483647 < numeral_value ''3000000000'' \<and>
   NewCmdLink failing_client_New stub_factory None repo_flags [''3000000000''] empty_world =
     (Some (OtherError ''could not read the configuration''), empty_world) \<and>
   NewCmdLink failing_client_New stub_factory None repo_flags [''3000000000''] empty_world \<noteq>
     (Some (FlagError ''invalid number: 3000000000''), empty_world)"
  by (simp add: NewCmdLink_def RunE_def RunE_config_def failing_client_New_def
      decimal_numeral_def numeral_value_def is_digit_def)

text \<open>
  \<^bold>\<open>C10,\<close> as the code has it. The number is parsed before the target flags are
  looked at. When the client was constructed and the single positional argument is not a
  decimal numeral, the command returns \<open>invalid number: ...\<close> also when both target flags
  or neither is set; it returns neither of the two errors of the flag check.
\<close>

theorem invalid_number_precedes_target_check:
  "client_New f = Inr cl \<Longrightarrow> \<not> decimal_numeral a \<Longrightarrow>
   (flag_repo fl \<noteq> '''' \<and> flag_team fl \<noteq> '''') \<or> (flag_repo fl = '''' \<and> flag_team fl = '''') \<Longrightarrow>
   NewCmdLink client_New f runF fl [a] w = (Some (FlagError (''invalid number: '' @ a)), w) \<and>
   fst (NewCmdLink client_New f runF fl [a] w) \<noteq>
     Some (Errorf ''specify only one of `--repo` or `--team`'') \<and>
   fst (NewCmdLink client_New f runF fl [a] w) \<noteq>
     Some (Errorf ''specify either `--repo` or `--team`'')"
  using RunE_config_invalid [OF _ ParseInt_not_numeral, of client_New f cl a "bound_opts fl"]
  by (simp add: NewCmdLink_def RunE_def)

text \<open>C10 on the test doubles: the argument \<open>abc\<close> with both flags, then with none.\<close>

theorem invalid_number_precedes_target_check_witness:
  "stub_client_New stub_factory = Inr stub_client \<and> \<not> decimal_numeral ''abc'' \<and>
   flag_repo both_flags \<noteq> '''' \<and> flag_team both_flags \<noteq> '''' \<and>
   NewCmdLink stub_client_New stub_factory None both_flags [''abc''] empty_world =
     (Some (FlagError ''invalid number: abc''), empty_world) \<and>
   flag_repo no_flags = '''' \<and> flag_team no_flags = '''' \<and>
   NewCmdLink stub_client_New stub_factory None no_flags [''abc''] empty_world =
     (Some (FlagError ''invalid number: abc''), empty_world)"
  using invalid_number_precedes_target_check [of stub_client_New stub_factory stub_client
      "''abc''" both_flags None empty_world]
    invalid_number_precedes_target_check [of stub_client_New stub_factory stub_client
      "''abc''" no_flags None empty_world]
  by (simp add: stub_client_New_def decimal_numeral_def is_digit_def both_flags_def no_flags_def)

text \<open>
  C10 without the condition on the client does not hold: the failure of \<open>client.New\<close>
  comes before the number is parsed, and its error is what the command reports.
\<close>

theorem invalid_number_precedence_counterexample:
  "\<not> decimal_numeral ''abc'' \<and> flag_repo both_flags \<noteq> '''' \<and> flag_team both_flags \<noteq> '''' \<and>
   NewCmdLink failing_client_New stub_factory None both_flags [''abc''] empty_world =
     (Some (OtherError ''could not read the configuration''), empty_world) \<and>
   NewCmdLink failing_client_New stub_factory None both_flags [''abc''] empty_world \<noteq>
     (Some (FlagError ''invalid number: abc''), empty_world)"
  by (simp add: NewCmdLink_def RunE_def RunE_config_def failing_client_New_def
      decimal_numeral_def is_digit_def both_flags_def)

text \<open>
  \<^bold>\<open>C2,\<close> as the code has it. The check of the two target flags stands behind two
  earlier returns of \<open>RunE\<close>: the construction of the client and the parsing of the
  number. So, when the client was constructed: with both \<open>--repo\<close> and \<open>--team\<close> the
  command fails, without calling \<open>runF\<close> or \<open>runLink\<close>, with the error
  \<open>invalid number: ...\<close> (a \<open>FlagError\<close>) if its single positional argument does not
  parse, and otherwise with \<open>specify only one of `--repo` or `--team`\<close>; with neither
  flag it fails likewise, otherwise with \<open>specify either `--repo` or `--team`\<close>. The two
  messages about the flags are built by \<open>fmt.Errorf\<close>, not by \<open>cmdutil.FlagErrorf\<close>.
  Whenever \<open>RunE\<close> gets past its checks, exactly one of the two flags is set.
\<close>

theorem target_flag_validation:
  "client_New f = Inr cl \<Longrightarrow>
   (flag_repo fl \<noteq> '''' \<and> flag_team fl \<noteq> '''' \<longrightarrow>
      NewCmdLink client_New f runF fl args w =
        (Some (if length args = 1 \<and> snd (ParseInt (args ! 0) 10 32) \<noteq> None
               then FlagError (''invalid number: '' @ args ! 0)
               else Errorf ''specify only one of `--repo` or `--team`''), w)) \<and>
   (flag_repo fl = '''' \<and> flag_team fl = '''' \<longrightarrow>
      NewCmdLink client_New f runF fl args w =
        (Some (if length args = 1 \<and> snd (ParseInt (args ! 0) 10 32) \<noteq> None
               then FlagError (''invalid number: '' @ args ! 0)
               else Errorf ''specify either `--repo` or `--team`''), w)) \<and>
   (\<forall>config. RunE_config client_New f (bound_opts fl) args = Inr config \<longrightarrow>
      (flag_repo fl = '''') \<noteq> (flag_team fl = ''''))"
proof -
  assume cl: "client_New f = Inr cl"
  have b: "repo (bound_opts fl) = flag_repo fl" "team (bound_opts fl) = flag_team fl"
    by (simp_all add: bound_opts_def)
  have both: "NewCmdLink client_New f runF fl args w =
      (Some (if length args = 1 \<and> snd (ParseInt (args ! 0) 10 32) \<noteq> None
             then FlagError (''invalid number: '' @ args ! 0)
             else Errorf ''specify only one of `--repo` or `--team`''), w)"
    if "flag_repo fl \<noteq> '''' \<and> flag_team fl \<noteq> ''''"
    using that cl RunE_config_both [of client_New f cl "bound_opts fl" args]
    by (simp add: NewCmdLink_def RunE_def b)
  have neither: "NewCmdLink client_New f runF fl args w =
      (Some (if length args = 1 \<and> snd (ParseInt (args ! 0) 10 32) \<noteq> None
             then FlagError (''invalid number: '' @ args ! 0)
             else Errorf ''specify either `--repo` or `--team`''), w)"
    if "flag_repo fl = '''' \<and> flag_team fl = ''''"
    using that cl RunE_config_neither [of client_New f cl "bound_opts fl" args]
    by (simp add: NewCmdLink_def RunE_def b)
  have one: "(flag_repo fl = '''') \<noteq> (flag_team fl = '''')"
    if "RunE_config client_New f (bound_opts fl) args = Inr config" for config
    using RunE_config_Inr [OF that] by (simp add: b)
  from both neither one show ?thesis
    by blast
qed

text \<open>C2 on the test doubles: both flags, then no flag, with the valid number \<open>1\<close>.\<close>

theorem target_flag_validation_witness:
  "stub_client_New stub_factory = Inr stub_client \<and>
   flag_repo both_flags \<noteq> '''' \<and> flag_team both_flags \<noteq> '''' \<and>
   NewCmdLink stub_client_New stub_factory None both_flags [''1''] empty_world =
     (Some (Errorf ''specify only one of `--repo` or `--team`''), empty_world) \<and>
   flag_repo no_flags = '''' \<and> flag_team no_flags = '''' \<and>
   NewCmdLink stub_client_New stub_factory None no_flags [''1''] empty_world =
     (Some (Errorf ''specify either `--repo` or `--team`''), empty_world)"
proof -
  have p: "ParseInt ''1'' 10 32 = (1, None)"
    by (simp add: ParseInt_def ParseUint_def digit_def lower_def maxUint64_def Let_def)
  have cl: "stub_client_New stub_factory = Inr stub_client"
    by (simp add: stub_client_New_def)
  have fb: "flag_repo both_flags \<noteq> '''' \<and> flag_team both_flags \<noteq> ''''"
    by (simp add: both_flags_def)
  have fn: "flag_repo no_flags = '''' \<and> flag_team no_flags = ''''"
    by (simp add: no_flags_def)
  from target_flag_validation [of stub_client_New stub_factory stub_client both_flags None
      "[''1'']" empty_world, OF cl] fb
  have "NewCmdLink stub_client_New stub_factory None both_flags [''1''] empty_world =
      (Some (if length [''1''] = 1 \<and> snd (ParseInt ([''1''] ! 0) 10 32) \<noteq> None
             then FlagError (''invalid number: '' @ [''1''] ! 0)
             else Errorf ''specify only one of `--repo` or `--team`''), empty_world)"
    by blast
  then have b: "NewCmdLink stub_client_New stub_factory None both_flags [''1''] empty_world =
      (Some (Errorf ''specify only one of `--repo` or `--team`''), empty_world)"
    by (simp add: p)
  from target_flag_validation [of stub_client_New stub_factory stub_client no_flags None
      "[''1'']" empty_world, OF cl] fn
  have "NewCmdLink stub_client_New stub_factory None no_flags [''1''] empty_world =
      (Some (if length [''1''] = 1 \<and> snd (ParseInt ([''1''] ! 0) 10 32) \<noteq> None
             then FlagError (''invalid number: '' @ [''1''] ! 0)
             else Errorf ''specify either `--repo` or `--team`''), empty_world)"
    by blast
  then have n: "NewCmdLink stub_client_New stub_factory None no_flags [''1''] empty_world =
      (Some (Errorf ''specify either `--repo` or `--team`''), empty_world)"
    by (simp add: p)
  from cl fb b fn n show ?thesis
    by (intro conjI) (erule conjunct1 conjunct2 | assumption)+
qed

text \<open>
  C2 without the condition on the client does not hold: when \<open>client.New\<close> fails, the
  command with both flags returns the error of \<open>client.New\<close>, which is no usage error.
\<close>

theorem target_flag_validation_counterexample:
  "flag_repo both_flags \<noteq> '''' \<and> flag_team both_flags \<noteq> '''' \<and>
   NewCmdLink failing_client_New stub_factory None both_flags [''1''] empty_world =
     (Some (OtherError ''could not read the configuration''), empty_world) \<and>
   NewCmdLink failing_client_New stub_factory None both_flags [''1''] empty_world \<noteq>
     (Some (Errorf ''specify only one of `--repo` or `--team`''), empty_world) \<and>
   flag_repo no_flags = '''' \<and> flag_team no_flags = '''' \<and>
   NewCmdLink failing_client_New stub_factory None no_flags [''1''] empty_world =
     (Some (OtherError ''could not read the configuration''), empty_world) \<and>
   NewCmdLink failing_client_New stub_factory None no_flags [''1''] empty_world \<noteq>
     (Some (Errorf ''specify either `--repo` or `--team`''), empty_world)"
  by (simp add: NewCmdLink_def RunE_def RunE_config_def failing_client_New_def both_flags_def
      no_flags_def)

text \<open>
  \<^bold>\<open>C9.\<close> With the same flags, the positional argument \<open>0\<close> and no positional argument
  give \<open>RunE\<close> the same configuration or the same early error, hence the same result of
  the command whatever \<open>runF\<close> is; and in the configuration handed on, \<open>opts.number\<close> is 0
  in both cases.
\<close>

theorem zero_argument_same_as_none:
  "RunE_config client_New f (bound_opts fl) [''0''] = RunE_config client_New f (bound_opts fl) [] \<and>
   NewCmdLink client_New f runF fl [''0''] w = NewCmdLink client_New f runF fl [] w \<and>
   (\<forall>config. RunE_config client_New f (bound_opts fl) [''0''] = Inr config \<longrightarrow>
      number (opts config) = 0) \<and>
   (\<forall>config. RunE_config client_New f (bound_opts fl) [] = Inr config \<longrightarrow>
      number (opts config) = 0)"
proof -
  have z: "number (bound_opts fl) = 0"
    by (simp add: bound_opts_def)
  have n: "number (opts config) = 0"
    if "RunE_config client_New f (bound_opts fl) [] = Inr config" for config
    using that z by (auto simp: RunE_config_def Let_def split: sum.splits if_splits)
  show ?thesis
    using RunE_config_zero [OF z, of client_New f] n
    by (simp add: NewCmdLink_def RunE_def)
qed

text \<open>C9 on the test doubles, with \<open>--repo\<close> set.\<close>

theorem zero_argument_same_as_none_witness:
  "NewCmdLink stub_client_New stub_factory None repo_flags [''0''] empty_world =
     NewCmdLink stub_client_New stub_factory None repo_flags [] empty_world \<and>
   (\<exists>config. RunE_config stub_client_New stub_factory (bound_opts repo_flags) [''0''] =
      Inr config \<and> number (opts config) = 0)"
proof -
  have p: "ParseInt ''0'' 10 32 = (0, None)"
    by (simp add: ParseInt_def ParseUint_def digit_def lower_def maxUint64_def Let_def)
  have c: "\<exists>config. RunE_config stub_client_New stub_factory (bound_opts repo_flags) [''0''] =
      Inr config"
    by (simp add: RunE_config_def stub_client_New_def p bound_opts_def repo_flags_def Let_def)
  note t = zero_argument_same_as_none [of stub_client_New stub_factory repo_flags None empty_world]
  from t have same: "NewCmdLink stub_client_New stub_factory None repo_flags [''0''] empty_world =
     NewCmdLink stub_client_New stub_factory None repo_flags [] empty_world"
    by (rule conjunct1 [OF conjunct2])
  from c obtain config where
    r: "RunE_config stub_client_New stub_factory (bound_opts repo_flags) [''0''] = Inr config"
    by (rule exE)
  from t r have "number (opts config) = 0"
    by blast
  with r same show ?thesis
    by blast
qed

subsection \<open>The run\<close>

lemma runLink_repo:
  assumes "resolves_repo config own project c r"
  shows "runLink config w =
     (case repo_mutation_outcome config project r of
        (Some err, q) \<Rightarrow> (Some err, w\<lparr>network := network w @ repo_calls config own project r\<rparr>)
      | (None, q) \<Rightarrow>
          (case exporter (opts config) of
             Some ex \<Rightarrow>
               (snd (Write ex (io config)
                      (RepositoryData (LinkProjectV2ToRepository_Repository q))),
                w\<lparr>network := network w @ repo_calls config own project r,
                  stdout := stdout w @ fst (Write ex (io config)
                      (RepositoryData (LinkProjectV2ToRepository_Repository q)))\<rparr>)
           | None \<Rightarrow>
               if \<not> IsStdoutTTY (io config)
               then (None, w\<lparr>network := network w @ repo_calls config own project r\<rparr>)
               else
                 (case Out_Write (io config)
                         (Repository_URL (LinkProjectV2ToRepository_Repository q) @ [CHR 0x0A]) of
                    None \<Rightarrow>
                      (None, w\<lparr>network := network w @ repo_calls config own project r,
                               stdout := stdout w @
                                 Repository_URL (LinkProjectV2ToRepository_Repository q) @
                                 [CHR 0x0A]\<rparr>)
                  | Some err \<Rightarrow>
                      (Some err, w\<lparr>network := network w @ repo_calls config own project r\<rparr>))))"
  using assms
  by (simp add: resolves_repo_def owner_lookup_def project_lookup_def repo_lookup_def runLink_def linkRepo_def linkRepoArgs_def
      repo_mutation_outcome_def repo_calls_def printResults_def Exporter_Write_def
      perform_def emit_def Let_def
      split: prod.splits option.splits)

lemma runLink_team:
  assumes "resolves_team config own project c t"
  shows "runLink config w =
     (case team_mutation_outcome config project t of
        (Some err, q) \<Rightarrow> (Some err, w\<lparr>network := network w @ team_calls config own project t\<rparr>)
      | (None, q) \<Rightarrow>
          (case exporter (opts config) of
             Some ex \<Rightarrow>
               (snd (Write ex (io config) (TeamData (LinkProjectV2ToTeam_Team q))),
                w\<lparr>network := network w @ team_calls config own project t,
                  stdout := stdout w @
                    fst (Write ex (io config) (TeamData (LinkProjectV2ToTeam_Team q)))\<rparr>)
           | None \<Rightarrow>
               if \<not> IsStdoutTTY (io config)
               then (None, w\<lparr>network := network w @ team_calls config own project t\<rparr>)
               else
                 (case Out_Write (io config)
                         (Team_URL (LinkProjectV2ToTeam_Team q) @ [CHR 0x0A]) of
                    None \<Rightarrow>
                      (None, w\<lparr>network := network w @ team_calls config own project t,
                               stdout := stdout w @
                                 Team_URL (LinkProjectV2ToTeam_Team q) @ [CHR 0x0A]\<rparr>)
                  | Some err \<Rightarrow>
                      (Some err, w\<lparr>network := network w @ team_calls config own project t\<rparr>))))"
  using assms
  by (simp add: resolves_team_def owner_lookup_def project_lookup_def team_lookup_def runLink_def linkTeam_def linkTeamArgs_def
      team_mutation_outcome_def team_calls_def printResults_def Exporter_Write_def
      perform_def emit_def Let_def
      split: prod.splits option.splits)

subsection \<open>The order of the network operations\<close>

lemma linkRepo_steps:
  "\<exists>new. network (snd (linkRepo c own config w)) = network w @ new \<and>
     (map step_of new = [TargetLookup] \<or> map step_of new = [TargetLookup, LinkMutation])"
  by (auto simp: linkRepo_def linkRepoArgs_def printResults_def Exporter_Write_def
      perform_def emit_def Let_def split: sum.splits prod.splits option.splits)

lemma linkTeam_steps:
  "\<exists>new. network (snd (linkTeam c own config w)) = network w @ new \<and>
     (map step_of new = [TargetLookup] \<or> map step_of new = [TargetLookup, LinkMutation])"
  by (auto simp: linkTeam_def linkTeamArgs_def printResults_def Exporter_Write_def
      perform_def emit_def Let_def split: sum.splits prod.splits option.splits)

lemma runLink_steps:
  "\<exists>new. network (snd (runLink config w)) = network w @ new \<and>
     (map step_of new = [OwnerResolution] \<or>
      map step_of new = [OwnerResolution, ProjectResolution] \<or>
      map step_of new = [OwnerResolution, ProjectResolution, TargetLookup] \<or>
      map step_of new = [OwnerResolution, ProjectResolution, TargetLookup, LinkMutation])"
proof (cases "NewOwner (client config) (CanPrompt (io config)) (owner (opts config))")
  case (Inl e)
  then show ?thesis
    by (simp add: runLink_def perform_def Let_def)
next
  case own: (Inr own)
  show ?thesis
  proof (cases "NewProject (client config) (CanPrompt (io config)) own (number (opts config)) False")
    case (Inl e)
    with own show ?thesis
      by (simp add: runLink_def perform_def Let_def)
  next
    case project: (Inr project)
    let ?config1 = "config\<lparr>opts := (opts config)\<lparr>projectID := Project_ID project\<rparr>\<rparr>"
    let ?w2 = "perform (NewProject_call (CanPrompt (io config)) own (number (opts config)) False)
      (perform (NewOwner_call (CanPrompt (io config)) (owner (opts config))) w)"
    let ?pre = "[NewOwner_call (CanPrompt (io config)) (owner (opts config)),
         NewProject_call (CanPrompt (io config)) own (number (opts config)) False]"
    have w2: "network ?w2 = network w @ ?pre"
      by (simp add: perform_def)
    show ?thesis
    proof (cases "httpClient config")
      case (Inl e)
      with own project show ?thesis
        by (simp add: runLink_def perform_def Let_def)
    next
      case c: (Inr c)
      consider (repo) "repo (opts config) \<noteq> ''''"
        | (team) "repo (opts config) = ''''" "team (opts config) \<noteq> ''''"
        | (none) "repo (opts config) = ''''" "team (opts config) = ''''"
        by blast
      then show ?thesis
      proof cases
        case repo
        with own project c have r: "runLink config w = linkRepo c own ?config1 ?w2"
          by (simp add: runLink_def Let_def)
        from linkRepo_steps [of c own ?config1 ?w2] obtain new where
          a: "network (snd (linkRepo c own ?config1 ?w2)) = network ?w2 @ new" and
          b: "map step_of new = [TargetLookup] \<or> map step_of new = [TargetLookup, LinkMutation]"
          by (elim exE conjE) (rule that, assumption+)
        have n: "network (snd (runLink config w)) = network w @ (?pre @ new)"
          using r a w2 by simp
        have m: "map step_of (?pre @ new) = [OwnerResolution, ProjectResolution, TargetLookup] \<or>
            map step_of (?pre @ new) =
              [OwnerResolution, ProjectResolution, TargetLookup, LinkMutation]"
          using b by simp
        from m show ?thesis
          by (intro exI [of _ "?pre @ new"]) (simp add: n)
      next
        case team
        with own project c have r: "runLink config w = linkTeam c own ?config1 ?w2"
          by (simp add: runLink_def Let_def)
        from linkTeam_steps [of c own ?config1 ?w2] obtain new where
          a: "network (snd (linkTeam c own ?config1 ?w2)) = network ?w2 @ new" and
          b: "map step_of new = [TargetLookup] \<or> map step_of new = [TargetLookup, LinkMutation]"
          by (elim exE conjE) (rule that, assumption+)
        have n: "network (snd (runLink config w)) = network w @ (?pre @ new)"
          using r a w2 by simp
        have m: "map step_of (?pre @ new) = [OwnerResolution, ProjectResolution, TargetLookup] \<or>
            map step_of (?pre @ new) =
              [OwnerResolution, ProjectResolution, TargetLookup, LinkMutation]"
          using b by simp
        from m show ?thesis
          by (intro exI [of _ "?pre @ new"]) (simp add: n)
      next
        case none
        with own project c show ?thesis
          by (simp add: runLink_def perform_def Let_def)
      qed
    qed
  qed
qed

lemma runLink_prefix:
  "prefix (network w) (network (snd (runLink config w))) \<and>
   prefix (steps_between w (snd (runLink config w)))
     [OwnerResolution, ProjectResolution, TargetLookup, LinkMutation]"
proof -
  from runLink_steps [of config w] obtain new where
    n: "network (snd (runLink config w)) = network w @ new" and
    s: "map step_of new = [OwnerResolution] \<or>
      map step_of new = [OwnerResolution, ProjectResolution] \<or>
      map step_of new = [OwnerResolution, ProjectResolution, TargetLookup] \<or>
      map step_of new = [OwnerResolution, ProjectResolution, TargetLookup, LinkMutation]"
    by (elim exE conjE) (rule that, assumption+)
  from n have b: "steps_between w (snd (runLink config w)) = map step_of new"
    by (simp add: steps_between_def)
  from s have "prefix (map step_of new)
      [OwnerResolution, ProjectResolution, TargetLookup, LinkMutation]"
    by (elim disjE) simp_all
  with b n show ?thesis
    by simp
qed

subsection \<open>Facts about the test doubles\<close>

lemma stub_resolves_repo:
  "flag_repo fl \<noteq> '''' \<Longrightarrow> NewOwner cl = NewOwner stub_client \<Longrightarrow>
   NewProject cl = NewProject stub_client \<Longrightarrow>
   resolves_repo (stub_config fl ios cl) \<lparr>Login = flag_owner fl\<rparr> stub_project stub_api
     stub_repository"
  by (simp add: resolves_repo_def owner_lookup_def project_lookup_def repo_lookup_def stub_config_def stub_project_def stub_api_def
      stub_repository_def stub_client_def bound_opts_def)

lemma stub_resolves_team:
  "flag_repo fl = '''' \<Longrightarrow> flag_team fl \<noteq> '''' \<Longrightarrow> NewOwner cl = NewOwner stub_client \<Longrightarrow>
   NewProject cl = NewProject stub_client \<Longrightarrow>
   resolves_team (stub_config fl ios cl) \<lparr>Login = flag_owner fl\<rparr> stub_project stub_api
     stub_team"
  by (simp add: resolves_team_def owner_lookup_def project_lookup_def team_lookup_def stub_config_def stub_project_def stub_api_def
      stub_team_def stub_client_def bound_opts_def)

lemma stub_repo_calls:
  "repo_calls (stub_config fl ios cl) \<lparr>Login = flag_owner fl\<rparr> stub_project stub_repository =
     [NewOwner_call (CanPrompt ios) (flag_owner fl),
      NewProject_call (CanPrompt ios) \<lparr>Login = flag_owner fl\<rparr> 0 False,
      GitHubRepo_call (flag_owner fl, flag_repo fl),
      Mutate_call ''LinkProjectV2ToRepository''
        [''input'' \<mapsto> LinkProjectV2ToRepositoryInput ''project-ID'' ''repo-ID'' None]]"
  by (simp add: repo_calls_def stub_config_def bound_opts_def stub_project_def
      stub_repository_def ghrepo_New_def)

lemma stub_team_calls:
  "team_calls (stub_config fl ios cl) \<lparr>Login = flag_owner fl\<rparr> stub_project stub_team =
     [NewOwner_call (CanPrompt ios) (flag_owner fl),
      NewProject_call (CanPrompt ios) \<lparr>Login = flag_owner fl\<rparr> 0 False,
      OrganizationTeam_call (flag_owner fl, '''') (flag_team fl),
      Mutate_call ''LinkProjectV2ToTeam''
        [''input'' \<mapsto> LinkProjectV2ToTeamInput ''project-ID'' ''team-ID'' None]]"
  by (simp add: team_calls_def stub_config_def bound_opts_def stub_project_def
      stub_team_def ghrepo_New_def)

lemma stub_repo_outcome:
  "repo_mutation_outcome (stub_config fl ios stub_client) stub_project stub_repository =
   (None, \<lparr>LinkProjectV2ToRepository_Repository = \<lparr>Repository_URL = ''http://a-url.com''\<rparr>\<rparr>)"
  by (simp add: repo_mutation_outcome_def stub_config_def stub_client_def)

lemma stub_team_outcome:
  "team_mutation_outcome (stub_config fl ios stub_client) stub_project stub_team =
   (None, \<lparr>LinkProjectV2ToTeam_Team = \<lparr>Team_URL = ''http://a-url.com''\<rparr>\<rparr>)"
  by (simp add: team_mutation_outcome_def stub_config_def stub_client_def)

subsection \<open>Payload, output and errors of the mutation\<close>

lemma linkArgs_payload:
  "snd (linkRepoArgs config) =
     [''input'' \<mapsto>
       LinkProjectV2ToRepositoryInput (projectID (opts config)) (repoID (opts config)) None]"
  "snd (linkTeamArgs config) =
     [''input'' \<mapsto>
       LinkProjectV2ToTeamInput (projectID (opts config)) (teamID (opts config)) None]"
  by (simp_all add: linkRepoArgs_def linkTeamArgs_def)

lemma runLink_repo_network:
  assumes "resolves_repo config own project c r"
  shows "network (snd (runLink config w)) = network w @ repo_calls config own project r"
  by (simp add: runLink_repo [OF assms] split: prod.splits option.splits)

lemma runLink_team_network:
  assumes "resolves_team config own project c t"
  shows "network (snd (runLink config w)) = network w @ team_calls config own project t"
  by (simp add: runLink_team [OF assms] split: prod.splits option.splits)

text \<open>
  \<^bold>\<open>C1.\<close> The variables built by \<open>linkRepoArgs\<close> are the map with the single key
  \<open>input\<close>, bound to a \<open>LinkProjectV2ToRepositoryInput\<close> holding exactly
  \<open>opts.projectID\<close> and \<open>opts.repoID\<close> (the optional client mutation id stays nil);
  those built by \<open>linkTeamArgs\<close> hold exactly \<open>opts.projectID\<close> and \<open>opts.teamID\<close>.
  In a run whose owner, project and target resolve, the mutation sent (the last network
  operation of the run) carries the identifier of the resolved project and the
  identifier of the resolved repository, respectively team, and nothing else.
\<close>

theorem mutation_payload_exact:
  "snd (linkRepoArgs config) =
     [''input'' \<mapsto>
       LinkProjectV2ToRepositoryInput (projectID (opts config)) (repoID (opts config)) None] \<and>
   snd (linkTeamArgs config) =
     [''input'' \<mapsto>
       LinkProjectV2ToTeamInput (projectID (opts config)) (teamID (opts config)) None] \<and>
   dom (snd (linkRepoArgs config)) = {''input''} \<and>
   dom (snd (linkTeamArgs config)) = {''input''} \<and>
   (resolves_repo config own project c r \<longrightarrow>
      last (network (snd (runLink config w))) =
        Mutate_call ''LinkProjectV2ToRepository''
          [''input'' \<mapsto>
            LinkProjectV2ToRepositoryInput (Project_ID project) (api_Repository_ID r) None]) \<and>
   (resolves_team config own project c t \<longrightarrow>
      last (network (snd (runLink config w))) =
        Mutate_call ''LinkProjectV2ToTeam''
          [''input'' \<mapsto> LinkProjectV2ToTeamInput (Project_ID project) (OrgTeam_ID t) None])"
proof -
  have "last (network (snd (runLink config w))) =
        Mutate_call ''LinkProjectV2ToRepository''
          [''input'' \<mapsto>
            LinkProjectV2ToRepositoryInput (Project_ID project) (api_Repository_ID r) None]"
    if "resolves_repo config own project c r"
    by (simp add: runLink_repo_network [OF that] repo_calls_def)
  moreover have "last (network (snd (runLink config w))) =
        Mutate_call ''LinkProjectV2ToTeam''
          [''input'' \<mapsto> LinkProjectV2ToTeamInput (Project_ID project) (OrgTeam_ID t) None]"
    if "resolves_team config own project c t"
    by (simp add: runLink_team_network [OF that] team_calls_def)
  ultimately show ?thesis
    by (simp add: linkArgs_payload)
qed

text \<open>The run-level part of C1 on the test doubles, once for a repository, once for a team.\<close>

theorem mutation_payload_exact_witness:
  "resolves_repo (stub_config repo_flags stub_io stub_client) \<lparr>Login = ''monalisa''\<rparr>
     stub_project stub_api stub_repository \<and>
   last (network (snd (runLink (stub_config repo_flags stub_io stub_client) empty_world))) =
     Mutate_call ''LinkProjectV2ToRepository''
       [''input'' \<mapsto> LinkProjectV2ToRepositoryInput ''project-ID'' ''repo-ID'' None] \<and>
   resolves_team (stub_config team_flags stub_io stub_client) \<lparr>Login = ''monalisa-org''\<rparr>
     stub_project stub_api stub_team \<and>
   last (network (snd (runLink (stub_config team_flags stub_io stub_client) empty_world))) =
     Mutate_call ''LinkProjectV2ToTeam''
       [''input'' \<mapsto> LinkProjectV2ToTeamInput ''project-ID'' ''team-ID'' None]"
proof -
  have r: "resolves_repo (stub_config repo_flags stub_io stub_client) \<lparr>Login = ''monalisa''\<rparr>
      stub_project stub_api stub_repository"
    using stub_resolves_repo [of repo_flags stub_client stub_io] by (simp add: repo_flags_def)
  have t: "resolves_team (stub_config team_flags stub_io stub_client) \<lparr>Login = ''monalisa-org''\<rparr>
      stub_project stub_api stub_team"
    using stub_resolves_team [of team_flags stub_client stub_io] by (simp add: team_flags_def)
  from r mutation_payload_exact [of "stub_config repo_flags stub_io stub_client"
      "\<lparr>Login = ''monalisa''\<rparr>" stub_project stub_api stub_repository empty_world]
  have a: "last (network (snd (runLink (stub_config repo_flags stub_io stub_client) empty_world))) =
     Mutate_call ''LinkProjectV2ToRepository''
       [''input'' \<mapsto> LinkProjectV2ToRepositoryInput ''project-ID'' ''repo-ID'' None]"
    by (simp add: stub_project_def stub_repository_def)
  from t mutation_payload_exact [of "stub_config team_flags stub_io stub_client"
      "\<lparr>Login = ''monalisa-org''\<rparr>" stub_project stub_api _ empty_world stub_team]
  have b: "last (network (snd (runLink (stub_config team_flags stub_io stub_client) empty_world))) =
     Mutate_call ''LinkProjectV2ToTeam''
       [''input'' \<mapsto> LinkProjectV2ToTeamInput ''project-ID'' ''team-ID'' None]"
    by (simp add: stub_project_def stub_team_def)
  from r a t b show ?thesis
    by (intro conjI)
qed

text \<open>
  \<^bold>\<open>C4.\<close> In a run that reaches the result of a successful mutation with an exporter
  set, the error returned is the one of \<open>exporter.Write\<close> applied to the entity the
  mutation returned (the \<open>Repository\<close>, respectively the \<open>Team\<close>), and what the run adds to
  standard output is exactly what that call writes: \<open>printResults\<close> is not on this path,
  so neither the terminal test nor the bare URL plays a part.
\<close>

theorem exporter_serializes_entity:
  "(resolves_repo config own project c r \<and>
    repo_mutation_outcome config project r = (None, q) \<and>
    exporter (opts config) = Some ex \<longrightarrow>
      fst (runLink config w) =
        snd (Write ex (io config) (RepositoryData (LinkProjectV2ToRepository_Repository q))) \<and>
      stdout (snd (runLink config w)) =
        stdout w @
        fst (Write ex (io config) (RepositoryData (LinkProjectV2ToRepository_Repository q)))) \<and>
   (resolves_team config own project c t \<and>
    team_mutation_outcome config project t = (None, q') \<and>
    exporter (opts config) = Some ex \<longrightarrow>
      fst (runLink config w) =
        snd (Write ex (io config) (TeamData (LinkProjectV2ToTeam_Team q'))) \<and>
      stdout (snd (runLink config w)) =
        stdout w @ fst (Write ex (io config) (TeamData (LinkProjectV2ToTeam_Team q'))))"
proof -
  have repo: "resolves_repo config own project c r \<and>
    repo_mutation_outcome config project r = (None, q) \<and>
    exporter (opts config) = Some ex \<longrightarrow>
      fst (runLink config w) =
        snd (Write ex (io config) (RepositoryData (LinkProjectV2ToRepository_Repository q))) \<and>
      stdout (snd (runLink config w)) =
        stdout w @
        fst (Write ex (io config) (RepositoryData (LinkProjectV2ToRepository_Repository q)))"
  proof (intro impI, elim conjE)
    assume r: "resolves_repo config own project c r"
      and o: "repo_mutation_outcome config project r = (None, q)"
      and e: "exporter (opts config) = Some ex"
    from o e show "fst (runLink config w) =
        snd (Write ex (io config) (RepositoryData (LinkProjectV2ToRepository_Repository q))) \<and>
      stdout (snd (runLink config w)) =
        stdout w @
        fst (Write ex (io config) (RepositoryData (LinkProjectV2ToRepository_Repository q)))"
      by (simp add: runLink_repo [OF r])
  qed
  have team: "resolves_team config own project c t \<and>
    team_mutation_outcome config project t = (None, q') \<and>
    exporter (opts config) = Some ex \<longrightarrow>
      fst (runLink config w) =
        snd (Write ex (io config) (TeamData (LinkProjectV2ToTeam_Team q'))) \<and>
      stdout (snd (runLink config w)) =
        stdout w @ fst (Write ex (io config) (TeamData (LinkProjectV2ToTeam_Team q')))"
  proof (intro impI, elim conjE)
    assume r: "resolves_team config own project c t"
      and o: "team_mutation_outcome config project t = (None, q')"
      and e: "exporter (opts config) = Some ex"
    from o e show "fst (runLink config w) =
        snd (Write ex (io config) (TeamData (LinkProjectV2ToTeam_Team q'))) \<and>
      stdout (snd (runLink config w)) =
        stdout w @ fst (Write ex (io config) (TeamData (LinkProjectV2ToTeam_Team q')))"
      by (simp add: runLink_team [OF r])
  qed
  from repo team show ?thesis
    by (rule conjI)
qed

text \<open>C4 on the test doubles: the exporter's text is the whole output.\<close>

theorem exporter_serializes_entity_witness:
  "resolves_repo (stub_config repo_export_flags stub_io stub_client) \<lparr>Login = ''monalisa''\<rparr>
     stub_project stub_api stub_repository \<and>
   repo_mutation_outcome (stub_config repo_export_flags stub_io stub_client) stub_project
     stub_repository =
     (None, \<lparr>LinkProjectV2ToRepository_Repository = \<lparr>Repository_URL = ''http://a-url.com''\<rparr>\<rparr>) \<and>
   exporter (opts (stub_config repo_export_flags stub_io stub_client)) = Some stub_exporter \<and>
   fst (runLink (stub_config repo_export_flags stub_io stub_client) empty_world) = None \<and>
   stdout (snd (runLink (stub_config repo_export_flags stub_io stub_client) empty_world)) =
     ''repository url=http://a-url.com''"
proof -
  let ?config = "stub_config repo_export_flags stub_io stub_client"
  have r: "resolves_repo ?config \<lparr>Login = ''monalisa''\<rparr> stub_project stub_api stub_repository"
    using stub_resolves_repo [of repo_export_flags stub_client stub_io]
    by (simp add: repo_export_flags_def)
  note o = stub_repo_outcome [of repo_export_flags stub_io]
  have e: "exporter (opts ?config) = Some stub_exporter"
    by (simp add: stub_config_def bound_opts_def repo_export_flags_def)
  from r o e exporter_serializes_entity [of ?config "\<lparr>Login = ''monalisa''\<rparr>" stub_project
      stub_api stub_repository _ stub_exporter empty_world]
  have "fst (runLink ?config empty_world) = None \<and>
      stdout (snd (runLink ?config empty_world)) = ''repository url=http://a-url.com''"
    by (simp add: stub_exporter_def empty_world_def)
  with r o e show ?thesis
    by (intro conjI) simp_all
qed

text \<open>
  \<^bold>\<open>C5.\<close> In a run that reaches the result of a successful mutation with no exporter
  set: when standard output is not a terminal the run returns nil and writes nothing;
  when it is a terminal and the run returns nil, the run has written exactly the URL of
  the entity the mutation returned, followed by one newline.
\<close>

theorem url_printed_only_on_terminal:
  "(resolves_repo config own project c r \<and>
    repo_mutation_outcome config project r = (None, q) \<and>
    exporter (opts config) = None \<longrightarrow>
      (\<not> IsStdoutTTY (io config) \<longrightarrow>
         fst (runLink config w) = None \<and> stdout (snd (runLink config w)) = stdout w) \<and>
      (IsStdoutTTY (io config) \<and> fst (runLink config w) = None \<longrightarrow>
         stdout (snd (runLink config w)) =
           stdout w @ Repository_URL (LinkProjectV2ToRepository_Repository q) @ [CHR 0x0A])) \<and>
   (resolves_team config own project c t \<and>
    team_mutation_outcome config project t = (None, q') \<and>
    exporter (opts config) = None \<longrightarrow>
      (\<not> IsStdoutTTY (io config) \<longrightarrow>
         fst (runLink config w) = None \<and> stdout (snd (runLink config w)) = stdout w) \<and>
      (IsStdoutTTY (io config) \<and> fst (runLink config w) = None \<longrightarrow>
         stdout (snd (runLink config w)) =
           stdout w @ Team_URL (LinkProjectV2ToTeam_Team q') @ [CHR 0x0A]))"
proof -
  have repo: "resolves_repo config own project c r \<and>
    repo_mutation_outcome config project r = (None, q) \<and>
    exporter (opts config) = None \<longrightarrow>
      (\<not> IsStdoutTTY (io config) \<longrightarrow>
         fst (runLink config w) = None \<and> stdout (snd (runLink config w)) = stdout w) \<and>
      (IsStdoutTTY (io config) \<and> fst (runLink config w) = None \<longrightarrow>
         stdout (snd (runLink config w)) =
           stdout w @ Repository_URL (LinkProjectV2ToRepository_Repository q) @ [CHR 0x0A])"
  proof (intro impI, elim conjE)
    assume r: "resolves_repo config own project c r"
      and o: "repo_mutation_outcome config project r = (None, q)"
      and e: "exporter (opts config) = None"
    from o e show "(\<not> IsStdoutTTY (io config) \<longrightarrow>
         fst (runLink config w) = None \<and> stdout (snd (runLink config w)) = stdout w) \<and>
      (IsStdoutTTY (io config) \<and> fst (runLink config w) = None \<longrightarrow>
         stdout (snd (runLink config w)) =
           stdout w @ Repository_URL (LinkProjectV2ToRepository_Repository q) @ [CHR 0x0A])"
      by (simp add: runLink_repo [OF r] split: option.splits)
  qed
  have team: "resolves_team config own project c t \<and>
    team_mutation_outcome config project t = (None, q') \<and>
    exporter (opts config) = None \<longrightarrow>
      (\<not> IsStdoutTTY (io config) \<longrightarrow>
         fst (runLink config w) = None \<and> stdout (snd (runLink config w)) = stdout w) \<and>
      (IsStdoutTTY (io config) \<and> fst (runLink config w) = None \<longrightarrow>
         stdout (snd (runLink config w)) =
           stdout w @ Team_URL (LinkProjectV2ToTeam_Team q') @ [CHR 0x0A])"
  proof (intro impI, elim conjE)
    assume r: "resolves_team config own project c t"
      and o: "team_mutation_outcome config project t = (None, q')"
      and e: "exporter (opts config) = None"
    from o e show "(\<not> IsStdoutTTY (io config) \<longrightarrow>
         fst (runLink config w) = None \<and> stdout (snd (runLink config w)) = stdout w) \<and>
      (IsStdoutTTY (io config) \<and> fst (runLink config w) = None \<longrightarrow>
         stdout (snd (runLink config w)) =
           stdout w @ Team_URL (LinkProjectV2ToTeam_Team q') @ [CHR 0x0A])"
      by (simp add: runLink_team [OF r] split: option.splits)
  qed
  from repo team show ?thesis
    by (rule conjI)
qed

text \<open>C5 on the test doubles: a repository with piped output, a team on a terminal.\<close>

theorem url_printed_only_on_terminal_witness:
  "resolves_repo (stub_config repo_flags piped_io stub_client) \<lparr>Login = ''monalisa''\<rparr>
     stub_project stub_api stub_repository \<and>
   exporter (opts (stub_config repo_flags piped_io stub_client)) = None \<and>
   \<not> IsStdoutTTY (io (stub_config repo_flags piped_io stub_client)) \<and>
   fst (runLink (stub_config repo_flags piped_io stub_client) empty_world) = None \<and>
   stdout (snd (runLink (stub_config repo_flags piped_io stub_client) empty_world)) = '''' \<and>
   resolves_team (stub_config team_flags stub_io stub_client) \<lparr>Login = ''monalisa-org''\<rparr>
     stub_project stub_api stub_team \<and>
   exporter (opts (stub_config team_flags stub_io stub_client)) = None \<and>
   IsStdoutTTY (io (stub_config team_flags stub_io stub_client)) \<and>
   fst (runLink (stub_config team_flags stub_io stub_client) empty_world) = None \<and>
   stdout (snd (runLink (stub_config team_flags stub_io stub_client) empty_world)) =
     ''http://a-url.com'' @ [CHR 0x0A]"
proof -
  let ?piped = "stub_config repo_flags piped_io stub_client"
  let ?tty = "stub_config team_flags stub_io stub_client"
  have r: "resolves_repo ?piped \<lparr>Login = ''monalisa''\<rparr> stub_project stub_api stub_repository"
    using stub_resolves_repo [of repo_flags stub_client piped_io] by (simp add: repo_flags_def)
  have t: "resolves_team ?tty \<lparr>Login = ''monalisa-org''\<rparr> stub_project stub_api stub_team"
    using stub_resolves_team [of team_flags stub_client stub_io] by (simp add: team_flags_def)
  have e1: "exporter (opts ?piped) = None"
    by (simp add: stub_config_def bound_opts_def repo_flags_def)
  have e2: "exporter (opts ?tty) = None"
    by (simp add: stub_config_def bound_opts_def team_flags_def)
  have i1: "\<not> IsStdoutTTY (io ?piped)"
    by (simp add: stub_config_def piped_io_def)
  have i2: "IsStdoutTTY (io ?tty)"
    by (simp add: stub_config_def stub_io_def)
  have ow: "Out_Write (io ?tty) s = None" for s
    by (simp add: stub_config_def stub_io_def)
  have ok: "fst (runLink ?tty empty_world) = None"
    by (simp add: runLink_team [OF t] e2 i2 ow stub_team_outcome)
  note o1 = stub_repo_outcome [of repo_flags piped_io]
  note o2 = stub_team_outcome [of team_flags stub_io]
  note th1 = url_printed_only_on_terminal [of ?piped "\<lparr>Login = ''monalisa''\<rparr>" stub_project
      stub_api stub_repository _ empty_world, THEN conjunct1, THEN mp, OF conjI [OF r conjI [OF o1 e1]],
      THEN conjunct1, THEN mp, OF i1]
  note th2 = url_printed_only_on_terminal [of ?tty "\<lparr>Login = ''monalisa-org''\<rparr>" stub_project
      stub_api _ _ empty_world stub_team, THEN conjunct2, THEN mp, OF conjI [OF t conjI [OF o2 e2]],
      THEN conjunct2, THEN mp, OF conjI [OF i2 ok]]
  from th1 have a1: "fst (runLink ?piped empty_world) = None"
    by (rule conjunct1)
  from th1 have a2: "stdout (snd (runLink ?piped empty_world)) = ''''"
    by (simp add: empty_world_def)
  from th2 have b: "stdout (snd (runLink ?tty empty_world)) = ''http://a-url.com'' @ [CHR 0x0A]"
    by (simp add: empty_world_def)
  from r e1 i1 a1 a2 t e2 i2 ok b show ?thesis
    by (intro conjI)
qed

lemma mutations_between_append:
  "network w' = network w @ new \<Longrightarrow> mutations_between w w' = length (filter is_mutation new)"
  by (simp add: mutations_between_def)

text \<open>
  \<^bold>\<open>C6.\<close> A run that reaches the mutation (owner, project, client and target are
  resolved) performs exactly one mutation, whether it succeeds or not; and when \<open>Mutate\<close>
  returns an error, \<open>runLink\<close> returns this very error, having performed the three lookups
  and the one mutation and written nothing.
\<close>

theorem single_mutation_error_verbatim:
  "(resolves_repo config own project c r \<longrightarrow>
      mutations_between w (snd (runLink config w)) = 1 \<and>
      (repo_mutation_outcome config project r = (Some err, q) \<longrightarrow>
         runLink config w =
           (Some err, w\<lparr>network := network w @ repo_calls config own project r\<rparr>))) \<and>
   (resolves_team config own project c t \<longrightarrow>
      mutations_between w (snd (runLink config w)) = 1 \<and>
      (team_mutation_outcome config project t = (Some err, q') \<longrightarrow>
         runLink config w =
           (Some err, w\<lparr>network := network w @ team_calls config own project t\<rparr>)))"
proof -
  have repo: "resolves_repo config own project c r \<longrightarrow>
      mutations_between w (snd (runLink config w)) = 1 \<and>
      (repo_mutation_outcome config project r = (Some err, q) \<longrightarrow>
         runLink config w =
           (Some err, w\<lparr>network := network w @ repo_calls config own project r\<rparr>))"
  proof
    assume r: "resolves_repo config own project c r"
    have "mutations_between w (snd (runLink config w)) =
        length (filter is_mutation (repo_calls config own project r))"
      by (rule mutations_between_append) (rule runLink_repo_network [OF r])
    then have one: "mutations_between w (snd (runLink config w)) = 1"
      by (simp add: repo_calls_def)
    have "runLink config w =
           (Some err, w\<lparr>network := network w @ repo_calls config own project r\<rparr>)"
      if "repo_mutation_outcome config project r = (Some err, q)"
      using that by (simp add: runLink_repo [OF r])
    with one show "mutations_between w (snd (runLink config w)) = 1 \<and>
      (repo_mutation_outcome config project r = (Some err, q) \<longrightarrow>
         runLink config w =
           (Some err, w\<lparr>network := network w @ repo_calls config own project r\<rparr>))"
      by simp
  qed
  have team: "resolves_team config own project c t \<longrightarrow>
      mutations_between w (snd (runLink config w)) = 1 \<and>
      (team_mutation_outcome config project t = (Some err, q') \<longrightarrow>
         runLink config w =
           (Some err, w\<lparr>network := network w @ team_calls config own project t\<rparr>))"
  proof
    assume r: "resolves_team config own project c t"
    have "mutations_between w (snd (runLink config w)) =
        length (filter is_mutation (team_calls config own project t))"
      by (rule mutations_between_append) (rule runLink_team_network [OF r])
    then have one: "mutations_between w (snd (runLink config w)) = 1"
      by (simp add: team_calls_def)
    have "runLink config w =
           (Some err, w\<lparr>network := network w @ team_calls config own project t\<rparr>)"
      if "team_mutation_outcome config project t = (Some err, q')"
      using that by (simp add: runLink_team [OF r])
    with one show "mutations_between w (snd (runLink config w)) = 1 \<and>
      (team_mutation_outcome config project t = (Some err, q') \<longrightarrow>
         runLink config w =
           (Some err, w\<lparr>network := network w @ team_calls config own project t\<rparr>))"
      by simp
  qed
  from repo team show ?thesis
    by (rule conjI)
qed

text \<open>C6 on the test doubles, with a client whose mutations are refused.\<close>

theorem single_mutation_error_verbatim_witness:
  "resolves_repo (stub_config repo_flags stub_io rejecting_client) \<lparr>Login = ''monalisa''\<rparr>
     stub_project stub_api stub_repository \<and>
   repo_mutation_outcome (stub_config repo_flags stub_io rejecting_client) stub_project
     stub_repository =
     (Some (OtherError ''GraphQL: forbidden''),
      \<lparr>LinkProjectV2ToRepository_Repository = \<lparr>Repository_URL = ''''\<rparr>\<rparr>) \<and>
   mutations_between empty_world
     (snd (runLink (stub_config repo_flags stub_io rejecting_client) empty_world)) = 1 \<and>
   runLink (stub_config repo_flags stub_io rejecting_client) empty_world =
     (Some (OtherError ''GraphQL: forbidden''),
      \<lparr>network =
         [NewOwner_call False ''monalisa'',
          NewProject_call False \<lparr>Login = ''monalisa''\<rparr> 0 False,
          GitHubRepo_call (''monalisa'', ''my-repo''),
          Mutate_call ''LinkProjectV2ToRepository''
            [''input'' \<mapsto> LinkProjectV2ToRepositoryInput ''project-ID'' ''repo-ID'' None]],
       stdout = ''''\<rparr>)"
proof -
  let ?config = "stub_config repo_flags stub_io rejecting_client"
  have r: "resolves_repo ?config \<lparr>Login = ''monalisa''\<rparr> stub_project stub_api stub_repository"
    using stub_resolves_repo [of repo_flags rejecting_client stub_io]
    by (simp add: repo_flags_def rejecting_client_def)
  have o: "repo_mutation_outcome ?config stub_project stub_repository =
     (Some (OtherError ''GraphQL: forbidden''),
      \<lparr>LinkProjectV2ToRepository_Repository = \<lparr>Repository_URL = ''''\<rparr>\<rparr>)"
    by (simp add: repo_mutation_outcome_def stub_config_def rejecting_client_def)
  have calls: "repo_calls ?config \<lparr>Login = ''monalisa''\<rparr> stub_project stub_repository =
      [NewOwner_call False ''monalisa'',
       NewProject_call False \<lparr>Login = ''monalisa''\<rparr> 0 False,
       GitHubRepo_call (''monalisa'', ''my-repo''),
       Mutate_call ''LinkProjectV2ToRepository''
         [''input'' \<mapsto> LinkProjectV2ToRepositoryInput ''project-ID'' ''repo-ID'' None]]"
    using stub_repo_calls [of repo_flags stub_io rejecting_client]
    by (simp add: repo_flags_def stub_io_def)
  note th = single_mutation_error_verbatim [of ?config "\<lparr>Login = ''monalisa''\<rparr>" stub_project
      stub_api stub_repository empty_world "OtherError ''GraphQL: forbidden''"
      "\<lparr>LinkProjectV2ToRepository_Repository = \<lparr>Repository_URL = ''''\<rparr>\<rparr>",
      THEN conjunct1, THEN mp, OF r]
  from th have one: "mutations_between empty_world (snd (runLink ?config empty_world)) = 1"
    by (rule conjunct1)
  from th [THEN conjunct2, THEN mp, OF o]
  have run: "runLink ?config empty_world =
        (Some (OtherError ''GraphQL: forbidden''),
         \<lparr>network =
            [NewOwner_call False ''monalisa'',
             NewProject_call False \<lparr>Login = ''monalisa''\<rparr> 0 False,
             GitHubRepo_call (''monalisa'', ''my-repo''),
             Mutate_call ''LinkProjectV2ToRepository''
               [''input'' \<mapsto> LinkProjectV2ToRepositoryInput ''project-ID'' ''repo-ID'' None]],
          stdout = ''''\<rparr>)"
    by (simp add: calls empty_world_def)
  from r o one run show ?thesis
    by (intro conjI)
qed

lemma steps_between_append:
  "network w' = network w @ new \<Longrightarrow> steps_between w w' = map step_of new"
  by (simp add: steps_between_def)

lemma runLink_owner_fails:
  "owner_lookup config = Inl e \<longrightarrow>
     fst (runLink config w) = Some e \<and>
     steps_between w (snd (runLink config w)) = [OwnerResolution]"
  by (simp add: owner_lookup_def runLink_def perform_def steps_between_def Let_def)

lemma runLink_project_fails:
  "owner_lookup config = Inr own \<and> project_lookup config own = Inl e \<longrightarrow>
     fst (runLink config w) = Some e \<and>
     steps_between w (snd (runLink config w)) = [OwnerResolution, ProjectResolution]"
  by (simp add: owner_lookup_def project_lookup_def runLink_def perform_def steps_between_def
      Let_def)

lemma runLink_httpClient_fails:
  "owner_lookup config = Inr own \<and> project_lookup config own = Inr project \<and>
   httpClient config = Inl e \<longrightarrow>
     fst (runLink config w) = Some e \<and>
     steps_between w (snd (runLink config w)) = [OwnerResolution, ProjectResolution]"
  by (simp add: owner_lookup_def project_lookup_def runLink_def perform_def steps_between_def
      Let_def)

lemma runLink_repo_lookup_fails:
  "owner_lookup config = Inr own \<and> project_lookup config own = Inr project \<and>
   httpClient config = Inr c \<and> repo (opts config) \<noteq> '''' \<and>
   repo_lookup config c own = Inl e \<longrightarrow>
     fst (runLink config w) = Some e \<and>
     steps_between w (snd (runLink config w)) =
       [OwnerResolution, ProjectResolution, TargetLookup]"
  by (simp add: owner_lookup_def project_lookup_def repo_lookup_def runLink_def linkRepo_def
      perform_def steps_between_def Let_def)

lemma runLink_team_lookup_fails:
  "owner_lookup config = Inr own \<and> project_lookup config own = Inr project \<and>
   httpClient config = Inr c \<and> repo (opts config) = '''' \<and> team (opts config) \<noteq> '''' \<and>
   team_lookup config c own = Inl e \<longrightarrow>
     fst (runLink config w) = Some e \<and>
     steps_between w (snd (runLink config w)) =
       [OwnerResolution, ProjectResolution, TargetLookup]"
  by (simp add: owner_lookup_def project_lookup_def team_lookup_def runLink_def linkTeam_def
      perform_def steps_between_def Let_def)

lemma runLink_repo_complete:
  "resolves_repo config own project c r \<longrightarrow>
     steps_between w (snd (runLink config w)) =
       [OwnerResolution, ProjectResolution, TargetLookup, LinkMutation] \<and>
     (repo_mutation_outcome config project r = (Some e, q) \<longrightarrow>
        fst (runLink config w) = Some e)"
proof
  assume r: "resolves_repo config own project c r"
  have "steps_between w (snd (runLink config w)) = map step_of (repo_calls config own project r)"
    by (rule steps_between_append) (rule runLink_repo_network [OF r])
  then show "steps_between w (snd (runLink config w)) =
       [OwnerResolution, ProjectResolution, TargetLookup, LinkMutation] \<and>
     (repo_mutation_outcome config project r = (Some e, q) \<longrightarrow>
        fst (runLink config w) = Some e)"
    by (simp add: runLink_repo [OF r] repo_calls_def)
qed

lemma runLink_team_complete:
  "resolves_team config own project c t \<longrightarrow>
     steps_between w (snd (runLink config w)) =
       [OwnerResolution, ProjectResolution, TargetLookup, LinkMutation] \<and>
     (team_mutation_outcome config project t = (Some e, q') \<longrightarrow>
        fst (runLink config w) = Some e)"
proof
  assume r: "resolves_team config own project c t"
  have "steps_between w (snd (runLink config w)) = map step_of (team_calls config own project t)"
    by (rule steps_between_append) (rule runLink_team_network [OF r])
  then show "steps_between w (snd (runLink config w)) =
       [OwnerResolution, ProjectResolution, TargetLookup, LinkMutation] \<and>
     (team_mutation_outcome config project t = (Some e, q') \<longrightarrow>
        fst (runLink config w) = Some e)"
    by (simp add: runLink_team [OF r] team_calls_def)
qed

text \<open>
  \<^bold>\<open>C7.\<close> The network operations of a run extend the log by a prefix of: owner
  resolution, project resolution, target lookup, link mutation; by all four, in this
  order, when owner, project, client and target resolve. When one of them fails (and
  when the HTTP client cannot be had, between project and target), \<open>runLink\<close> returns
  that error and the steps performed end with the failing one.
\<close>

theorem network_steps_in_order:
  "prefix (network w) (network (snd (runLink config w))) \<and>
   prefix (steps_between w (snd (runLink config w)))
     [OwnerResolution, ProjectResolution, TargetLookup, LinkMutation] \<and>
   (owner_lookup config = Inl e \<longrightarrow>
      fst (runLink config w) = Some e \<and>
      steps_between w (snd (runLink config w)) = [OwnerResolution]) \<and>
   (owner_lookup config = Inr own \<and> project_lookup config own = Inl e \<longrightarrow>
      fst (runLink config w) = Some e \<and>
      steps_between w (snd (runLink config w)) = [OwnerResolution, ProjectResolution]) \<and>
   (owner_lookup config = Inr own \<and> project_lookup config own = Inr project \<and>
    httpClient config = Inl e \<longrightarrow>
      fst (runLink config w) = Some e \<and>
      steps_between w (snd (runLink config w)) = [OwnerResolution, ProjectResolution]) \<and>
   (owner_lookup config = Inr own \<and> project_lookup config own = Inr project \<and>
    httpClient config = Inr c \<and> repo (opts config) \<noteq> '''' \<and>
    repo_lookup config c own = Inl e \<longrightarrow>
      fst (runLink config w) = Some e \<and>
      steps_between w (snd (runLink config w)) =
        [OwnerResolution, ProjectResolution, TargetLookup]) \<and>
   (owner_lookup config = Inr own \<and> project_lookup config own = Inr project \<and>
    httpClient config = Inr c \<and> repo (opts config) = '''' \<and> team (opts config) \<noteq> '''' \<and>
    team_lookup config c own = Inl e \<longrightarrow>
      fst (runLink config w) = Some e \<and>
      steps_between w (snd (runLink config w)) =
        [OwnerResolution, ProjectResolution, TargetLookup]) \<and>
   (resolves_repo config own project c r \<longrightarrow>
      steps_between w (snd (runLink config w)) =
        [OwnerResolution, ProjectResolution, TargetLookup, LinkMutation] \<and>
      (repo_mutation_outcome config project r = (Some e, q) \<longrightarrow>
         fst (runLink config w) = Some e)) \<and>
   (resolves_team config own project c t \<longrightarrow>
      steps_between w (snd (runLink config w)) =
        [OwnerResolution, ProjectResolution, TargetLookup, LinkMutation] \<and>
      (team_mutation_outcome config project t = (Some e, q') \<longrightarrow>
         fst (runLink config w) = Some e))"
  using runLink_prefix [of w config, THEN conjunct1] runLink_prefix [of w config, THEN conjunct2]
    runLink_owner_fails [of config e w] runLink_project_fails [of config own e w]
    runLink_httpClient_fails [of config own project e w]
    runLink_repo_lookup_fails [of config own project c e w]
    runLink_team_lookup_fails [of config own project c e w]
    runLink_repo_complete [of config own project c r w e q]
    runLink_team_complete [of config own project c t w e q']
  by (intro conjI)

text \<open>
  C7 on the test doubles: a project that does not resolve, a refused mutation, and a
  complete run for a team.
\<close>

theorem network_steps_in_order_witness:
  "owner_lookup (stub_config repo_flags stub_io no_project_client) = Inr \<lparr>Login = ''monalisa''\<rparr> \<and>
   project_lookup (stub_config repo_flags stub_io no_project_client) \<lparr>Login = ''monalisa''\<rparr> =
     Inl (OtherError ''Could not resolve to a ProjectV2'') \<and>
   fst (runLink (stub_config repo_flags stub_io no_project_client) empty_world) =
     Some (OtherError ''Could not resolve to a ProjectV2'') \<and>
   steps_between empty_world
     (snd (runLink (stub_config repo_flags stub_io no_project_client) empty_world)) =
     [OwnerResolution, ProjectResolution] \<and>
   resolves_repo (stub_config repo_flags stub_io rejecting_client) \<lparr>Login = ''monalisa''\<rparr>
     stub_project stub_api stub_repository \<and>
   repo_mutation_outcome (stub_config repo_flags stub_io rejecting_client) stub_project
     stub_repository =
     (Some (OtherError ''GraphQL: forbidden''),
      \<lparr>LinkProjectV2ToRepository_Repository = \<lparr>Repository_URL = ''''\<rparr>\<rparr>) \<and>
   fst (runLink (stub_config repo_flags stub_io rejecting_client) empty_world) =
     Some (OtherError ''GraphQL: forbidden'') \<and>
   steps_between empty_world
     (snd (runLink (stub_config repo_flags stub_io rejecting_client) empty_world)) =
     [OwnerResolution, ProjectResolution, TargetLookup, LinkMutation] \<and>
   resolves_team (stub_config team_flags stub_io stub_client) \<lparr>Login = ''monalisa-org''\<rparr>
     stub_project stub_api stub_team \<and>
   steps_between empty_world
     (snd (runLink (stub_config team_flags stub_io stub_client) empty_world)) =
     [OwnerResolution, ProjectResolution, TargetLookup, LinkMutation]"
proof -
  let ?noproj = "stub_config repo_flags stub_io no_project_client"
  let ?reject = "stub_config repo_flags stub_io rejecting_client"
  let ?team = "stub_config team_flags stub_io stub_client"
  let ?own = "\<lparr>Login = ''monalisa''\<rparr>"
  let ?org = "\<lparr>Login = ''monalisa-org''\<rparr>"
  let ?q = "\<lparr>LinkProjectV2ToRepository_Repository = \<lparr>Repository_URL = ''''\<rparr>\<rparr>"
  have ol: "owner_lookup ?noproj = Inr ?own"
    by (simp add: owner_lookup_def stub_config_def no_project_client_def stub_client_def
        bound_opts_def repo_flags_def)
  have pl: "project_lookup ?noproj ?own = Inl (OtherError ''Could not resolve to a ProjectV2'')"
    by (simp add: project_lookup_def stub_config_def no_project_client_def)
  have r: "resolves_repo ?reject ?own stub_project stub_api stub_repository"
    using stub_resolves_repo [of repo_flags rejecting_client stub_io]
    by (simp add: repo_flags_def rejecting_client_def)
  have o: "repo_mutation_outcome ?reject stub_project stub_repository =
     (Some (OtherError ''GraphQL: forbidden''), ?q)"
    by (simp add: repo_mutation_outcome_def stub_config_def rejecting_client_def)
  have t: "resolves_team ?team ?org stub_project stub_api stub_team"
    using stub_resolves_team [of team_flags stub_client stub_io] by (simp add: team_flags_def)
  note p = network_steps_in_order [of empty_world ?noproj _ ?own,
      THEN conjunct2, THEN conjunct2, THEN conjunct2, THEN conjunct1, THEN mp, OF conjI [OF ol pl]]
  note m = network_steps_in_order [of empty_world ?reject "OtherError ''GraphQL: forbidden''" ?own
      stub_project stub_api stub_repository ?q,
      THEN conjunct2, THEN conjunct2, THEN conjunct2, THEN conjunct2, THEN conjunct2,
      THEN conjunct2, THEN conjunct2, THEN conjunct1, THEN mp, OF r]
  note s = network_steps_in_order [of empty_world ?team _ ?org stub_project stub_api _ _ stub_team,
      THEN conjunct2, THEN conjunct2, THEN conjunct2, THEN conjunct2, THEN conjunct2,
      THEN conjunct2, THEN conjunct2, THEN conjunct2, THEN mp, OF t, THEN conjunct1]
  from ol pl p [THEN conjunct1] p [THEN conjunct2] r o m [THEN conjunct2, THEN mp, OF o]
    m [THEN conjunct1] t s
  show ?thesis
    by (intro conjI)
qed

end
